theory Spec2Isabelle
  imports Complex_Main
begin

section \<open>Python strings\<close>

text \<open>
  A Python \<open>str\<close> is a sequence of code points. The model uses \<open>string\<close> with one
  \<open>char\<close> per code point, which covers the code points below 256 (ASCII and Latin-1):
  \<open>CHR 0xEF\<close> is the letter i with diaeresis of "mais" written with a diaeresis. All vocabulary of the
  program is ASCII.
\<close>

definition ascii_upper :: "string" where
  "ascii_upper = ''ABCDEFGHIJKLMNOPQRSTUVWXYZ''"

definition ascii_lower :: "string" where
  "ascii_lower = ''abcdefghijklmnopqrstuvwxyz''"

definition latin1_upper :: "string" where
  "latin1_upper =
     [CHR 0xC0, CHR 0xC1, CHR 0xC2, CHR 0xC3, CHR 0xC4, CHR 0xC5, CHR 0xC6, CHR 0xC7,
      CHR 0xC8, CHR 0xC9, CHR 0xCA, CHR 0xCB, CHR 0xCC, CHR 0xCD, CHR 0xCE, CHR 0xCF,
      CHR 0xD0, CHR 0xD1, CHR 0xD2, CHR 0xD3, CHR 0xD4, CHR 0xD5, CHR 0xD6,
      CHR 0xD8, CHR 0xD9, CHR 0xDA, CHR 0xDB, CHR 0xDC, CHR 0xDD, CHR 0xDE]"

definition latin1_lower :: "string" where
  "latin1_lower =
     [CHR 0xE0, CHR 0xE1, CHR 0xE2, CHR 0xE3, CHR 0xE4, CHR 0xE5, CHR 0xE6, CHR 0xE7,
      CHR 0xE8, CHR 0xE9, CHR 0xEA, CHR 0xEB, CHR 0xEC, CHR 0xED, CHR 0xEE, CHR 0xEF,
      CHR 0xF0, CHR 0xF1, CHR 0xF2, CHR 0xF3, CHR 0xF4, CHR 0xF5, CHR 0xF6,
      CHR 0xF8, CHR 0xF9, CHR 0xFA, CHR 0xFB, CHR 0xFC, CHR 0xFD, CHR 0xFE]"

text \<open>\<open>str.lower()\<close>: the cased letters below 256 are A-Z and the Latin-1 capitals.\<close>

definition lower_char :: "char \<Rightarrow> char" where
  "lower_char c =
     (case map_of (zip (ascii_upper @ latin1_upper) (ascii_lower @ latin1_lower)) c of
        Some d \<Rightarrow> d
      | None \<Rightarrow> c)"

definition lower :: "string \<Rightarrow> string" where
  "lower s = map lower_char s"

text \<open>\<open>str.isspace()\<close> for one character, below 256.\<close>

definition is_space :: "char \<Rightarrow> bool" where
  "is_space c \<longleftrightarrow>
     c \<in> set [CHR 0x09, CHR 0x0A, CHR 0x0B, CHR 0x0C, CHR 0x0D, CHR 0x1C, CHR 0x1D,
               CHR 0x1E, CHR 0x1F, CHR '' '', CHR 0x85, CHR 0xA0]"

text \<open>\<open>s.strip()\<close>\<close>

definition strip :: "string \<Rightarrow> string" where
  "strip s = rev (dropWhile is_space (rev (dropWhile is_space s)))"

text \<open>\<open>s.replace(a, b)\<close> for single characters \<open>a\<close> and \<open>b\<close>.\<close>

definition replace_char :: "char \<Rightarrow> char \<Rightarrow> string \<Rightarrow> string" where
  "replace_char a b s = map (\<lambda>c. if c = a then b else c) s"

text \<open>\<open>s.startswith(p)\<close>\<close>

fun startswith :: "string \<Rightarrow> string \<Rightarrow> bool" where
  "startswith s [] = True"
| "startswith [] (p # ps) = False"
| "startswith (c # s) (p # ps) = (c = p \<and> startswith s ps)"

text \<open>\<open>sub in s\<close> for two strings: \<open>sub\<close> occurs in \<open>s\<close> as a contiguous block.\<close>

fun contains :: "string \<Rightarrow> string \<Rightarrow> bool" where
  "contains [] sub = (sub = [])"
| "contains (c # s) sub = (startswith (c # s) sub \<or> contains s sub)"

text \<open>
  \<open>unidecode(s)\<close> of the external library of that name: an ASCII character stays, every
  other character is replaced by the string its transliteration table gives. The table
  is not part of this repository and is the parameter \<open>tbl\<close>.
\<close>

definition is_ascii :: "char \<Rightarrow> bool" where
  "is_ascii c \<longleftrightarrow> \<not> digit7 c"

definition unidecode :: "(char \<Rightarrow> string) \<Rightarrow> string \<Rightarrow> string" where
  "unidecode tbl s = concat (map (\<lambda>c. if is_ascii c then [c] else tbl c) s)"

text \<open>
  A fragment of the transliteration table, for concrete runs: the entries of the letters
  of Latin-1 (code points 0xC0 to 0xFF, with the two signs among them). The signs from
  0x80 to 0xBF are not in the fragment, which gives the empty string for them; no run
  below contains one.
\<close>

definition translit_fr :: "char \<Rightarrow> string" where
  "translit_fr c =
     (case map_of
        [(CHR 0xC0, ''A''), (CHR 0xC1, ''A''), (CHR 0xC2, ''A''), (CHR 0xC3, ''A''),
         (CHR 0xC4, ''A''), (CHR 0xC5, ''A''), (CHR 0xC6, ''AE''), (CHR 0xC7, ''C''),
         (CHR 0xC8, ''E''), (CHR 0xC9, ''E''), (CHR 0xCA, ''E''), (CHR 0xCB, ''E''),
         (CHR 0xCC, ''I''), (CHR 0xCD, ''I''), (CHR 0xCE, ''I''), (CHR 0xCF, ''I''),
         (CHR 0xD0, ''D''), (CHR 0xD1, ''N''), (CHR 0xD2, ''O''), (CHR 0xD3, ''O''),
         (CHR 0xD4, ''O''), (CHR 0xD5, ''O''), (CHR 0xD6, ''O''), (CHR 0xD7, ''x''),
         (CHR 0xD8, ''O''), (CHR 0xD9, ''U''), (CHR 0xDA, ''U''), (CHR 0xDB, ''U''),
         (CHR 0xDC, ''U''), (CHR 0xDD, ''Y''), (CHR 0xDE, ''Th''), (CHR 0xDF, ''ss''),
         (CHR 0xE0, ''a''), (CHR 0xE1, ''a''), (CHR 0xE2, ''a''), (CHR 0xE3, ''a''),
         (CHR 0xE4, ''a''), (CHR 0xE5, ''a''), (CHR 0xE6, ''ae''), (CHR 0xE7, ''c''),
         (CHR 0xE8, ''e''), (CHR 0xE9, ''e''), (CHR 0xEA, ''e''), (CHR 0xEB, ''e''),
         (CHR 0xEC, ''i''), (CHR 0xED, ''i''), (CHR 0xEE, ''i''), (CHR 0xEF, ''i''),
         (CHR 0xF0, ''d''), (CHR 0xF1, ''n''), (CHR 0xF2, ''o''), (CHR 0xF3, ''o''),
         (CHR 0xF4, ''o''), (CHR 0xF5, ''o''), (CHR 0xF6, ''o''), (CHR 0xF7, ''/''),
         (CHR 0xF8, ''o''), (CHR 0xF9, ''u''), (CHR 0xFA, ''u''), (CHR 0xFB, ''u''),
         (CHR 0xFC, ''u''), (CHR 0xFD, ''y''), (CHR 0xFE, ''th''), (CHR 0xFF, ''y'')] c of
        Some t \<Rightarrow> t
      | None \<Rightarrow> [])"

section \<open>OntologyValidator (enhanced-llm-extractor.py)\<close>

text \<open>\<open>OntologyValidator.HUBS["plantes"]\<close>\<close>

definition HUBS_plantes :: "string list" where
  "HUBS_plantes = [''corn'', ''onion'', ''tomato'', ''mais'', ''oignon'', ''tomate'']"

text \<open>\<open>OntologyValidator.SATELLITES["symptomes"]\<close>\<close>

definition SATELLITES_symptomes :: "string list" where
  "SATELLITES_symptomes =
     [''chlorose'', ''necrose'', ''fletrissement'', ''lesion'', ''tache'', ''striure'',
      ''mosaique'', ''pourriture'', ''galle'', ''deformation'', ''nanisme'', ''toile'',
      ''galerie'', ''miellat'', ''morsure'', ''jaunissement'', ''perforation'']"

text \<open>\<open>OntologyValidator.PLANT_ALIASES\<close>, a dict, in the order it is written.\<close>

definition PLANT_ALIASES :: "(string \<times> string) list" where
  "PLANT_ALIASES =
     [(''mais'', ''corn''), ([CHR ''m'', CHR ''a'', CHR 0xEF, CHR ''s''], ''corn''),
      (''oignon'', ''onion''), (''tomate'', ''tomato'')]"

text \<open>
  \<open>difflib.get_close_matches(value, valid_terms, n=1, cutoff=cutoff)\<close> is the standard
  library's; it is the parameter \<open>gcm\<close>, a function of the word, the possibilities and the
  cutoff that returns the list of matches (at most one, best first).
\<close>

type_synonym close_matches = "string \<Rightarrow> string list \<Rightarrow> real \<Rightarrow> string list"

text \<open>The normalisation step of \<open>validate_term\<close>.\<close>

definition normalize_term :: "(char \<Rightarrow> string) \<Rightarrow> string \<Rightarrow> string" where
  "normalize_term tbl v =
     unidecode tbl (replace_char (CHR ''-'') (CHR ''_'') (replace_char (CHR '' '') (CHR ''_'') (lower v)))"

text \<open>
  \<open>OntologyValidator.validate_term(value, valid_terms, cutoff)\<close>. \<open>None\<close> of Python is
  \<open>None\<close>; the early return on an empty \<open>value\<close> comes first, as in the source.
\<close>

definition validate_term ::
  "(char \<Rightarrow> string) \<Rightarrow> close_matches \<Rightarrow> string \<Rightarrow> string list \<Rightarrow> real \<Rightarrow> string option" where
  "validate_term tbl gcm v valid_terms cutoff =
     (if v = [] then None
      else
        let v' = normalize_term tbl v in
        if v' \<in> set valid_terms then Some v'
        else
          (case find (\<lambda>t. contains v' t \<or> contains t v') valid_terms of
             Some t \<Rightarrow> Some t
           | None \<Rightarrow>
               (case gcm v' valid_terms cutoff of
                  [] \<Rightarrow> None
                | m # _ \<Rightarrow> Some m)))"

text \<open>The default of the parameter \<open>cutoff\<close>.\<close>

definition default_cutoff :: real where
  "default_cutoff = 6 / 10"

text \<open>\<open>OntologyValidator.identify_plant(lemme)\<close>\<close>

definition identify_plant :: "(char \<Rightarrow> string) \<Rightarrow> close_matches \<Rightarrow> string \<Rightarrow> string option" where
  "identify_plant tbl gcm lemme =
     (let lemme_norm = unidecode tbl (lower lemme) in
      case map_of PLANT_ALIASES lemme_norm of
        Some p \<Rightarrow> Some p
      | None \<Rightarrow> validate_term tbl gcm lemme HUBS_plantes default_cutoff)"

text \<open>
  The procedure of the specification for \<open>validate_term\<close>, word for word: normalise, then
  the exact match, else the first entry in a substring relation with the term, else the
  closest fuzzy match, else nothing. It has no case for the empty term.
\<close>

definition validate_term_spec ::
  "(char \<Rightarrow> string) \<Rightarrow> close_matches \<Rightarrow> string \<Rightarrow> string list \<Rightarrow> real \<Rightarrow> string option" where
  "validate_term_spec tbl gcm v valid_terms cutoff =
     (let v' = normalize_term tbl v in
      if v' \<in> set valid_terms then Some v'
      else
        (case find (\<lambda>t. contains v' t \<or> contains t v') valid_terms of
           Some t \<Rightarrow> Some t
         | None \<Rightarrow>
             (case gcm v' valid_terms cutoff of
                [] \<Rightarrow> None
              | m # _ \<Rightarrow> Some m)))"

text \<open>A fuzzy matcher that finds nothing, for concrete runs that do not reach it.\<close>

definition no_close_matches :: close_matches where
  "no_close_matches w ps c = []"

section \<open>Environment\<close>

text \<open>
  What the program takes from outside the repository: the hash \<open>hashlib.md5\<close> (as the hex
  digest of the encoded string), the clock \<open>datetime.now()\<close> (its readings, numbered in
  the order they are taken; a date is a natural number), the formatting of a date
  (\<open>timestamp()\<close> in an f-string, \<open>isoformat()\<close>), the formatting of a float in an
  f-string, and \<open>round(x, 4)\<close>. Floats are modelled as reals.
\<close>

record env =
  md5_hex :: "string \<Rightarrow> string"
  now :: "nat \<Rightarrow> nat"
  timestamp_str :: "nat \<Rightarrow> string"
  isoformat :: "nat \<Rightarrow> string"
  float_str :: "real \<Rightarrow> string"
  round4 :: "real \<Rightarrow> real"

text \<open>\<open>str(n)\<close> of a non-negative integer, as an f-string formats it.\<close>

fun str_nat :: "nat \<Rightarrow> string" where
  "str_nat n =
     (if n < 10 then [''0123456789'' ! n]
      else str_nat (n div 10) @ [''0123456789'' ! (n mod 10)])"

section \<open>Entity records (models/hub.py, models/link.py, models/satellite.py)\<close>

record hub =
  business_key :: string
  entity_type :: string
  record_source :: string
  ontology_uri :: string
  confidence_score :: real
  load_date :: nat
  hub_key :: string

text \<open>\<open>Hub._generate_hub_key\<close>\<close>

definition generate_hub_key :: "env \<Rightarrow> string \<Rightarrow> string \<Rightarrow> string" where
  "generate_hub_key e bk et = md5_hex e (bk @ ''_'' @ et)"

text \<open>
  The constructor with its defaults, as every call of the repository uses it:
  \<open>load_date\<close> is the reading \<open>t\<close> of the clock and \<open>__post_init__\<close> fills the key.
\<close>

definition Hub :: "env \<Rightarrow> nat \<Rightarrow> string \<Rightarrow> string \<Rightarrow> string \<Rightarrow> string \<Rightarrow> real \<Rightarrow> hub" where
  "Hub e t bk et src uri conf =
     \<lparr>business_key = bk, entity_type = et, record_source = src, ontology_uri = uri,
      confidence_score = conf, load_date = now e t, hub_key = generate_hub_key e bk et\<rparr>"

record link =
  hub_source_key :: string
  hub_target_key :: string
  relation_type :: string
  record_source :: string
  confidence_score :: real
  load_date :: nat
  link_key :: string

text \<open>\<open>Link._generate_link_key\<close>\<close>

definition generate_link_key :: "env \<Rightarrow> string \<Rightarrow> string \<Rightarrow> string \<Rightarrow> string" where
  "generate_link_key e sk rt tk = md5_hex e (sk @ ''_'' @ rt @ ''_'' @ tk)"

definition Link :: "env \<Rightarrow> nat \<Rightarrow> string \<Rightarrow> string \<Rightarrow> string \<Rightarrow> string \<Rightarrow> real \<Rightarrow> link" where
  "Link e t sk tk rt src conf =
     \<lparr>hub_source_key = sk, hub_target_key = tk, relation_type = rt, record_source = src,
      confidence_score = conf, load_date = now e t, link_key = generate_link_key e sk rt tk\<rparr>"

record satellite =
  hub_key :: string
  attribute_name :: string
  attribute_value :: string
  record_source :: string
  confidence_score :: real
  load_date :: nat
  satellite_key :: string
  hash_diff :: string

text \<open>\<open>Satellite._generate_satellite_key\<close> and \<open>Satellite._generate_hash_diff\<close>\<close>

definition generate_satellite_key :: "env \<Rightarrow> string \<Rightarrow> string \<Rightarrow> nat \<Rightarrow> string" where
  "generate_satellite_key e hk an d = md5_hex e (hk @ ''_'' @ an @ ''_'' @ timestamp_str e d)"

definition generate_hash_diff :: "env \<Rightarrow> string \<Rightarrow> string \<Rightarrow> real \<Rightarrow> string" where
  "generate_hash_diff e an av conf = md5_hex e (an @ ''_'' @ av @ ''_'' @ float_str e conf)"

definition Satellite ::
  "env \<Rightarrow> nat \<Rightarrow> string \<Rightarrow> string \<Rightarrow> string \<Rightarrow> string \<Rightarrow> real \<Rightarrow> satellite" where
  "Satellite e t hk an av src conf =
     \<lparr>hub_key = hk, attribute_name = an, attribute_value = av, record_source = src,
      confidence_score = conf, load_date = now e t,
      satellite_key = generate_satellite_key e hk an (now e t),
      hash_diff = generate_hash_diff e an av conf\<rparr>"

text \<open>Python values of the exported dictionaries and of the metadata.\<close>

datatype pyval =
  PStr string
| PInt nat
| PFloat real
| PList "pyval list"
| PDict "(string \<times> pyval) list"

text \<open>\<open>Hub.to_dict\<close>, \<open>Link.to_dict\<close>, \<open>Satellite.to_dict\<close>\<close>

definition hub_to_dict :: "env \<Rightarrow> hub \<Rightarrow> pyval" where
  "hub_to_dict e h =
     PDict [(''hub_key'', PStr (hub.hub_key h)),
            (''business_key'', PStr (business_key h)),
            (''entity_type'', PStr (entity_type h)),
            (''ontology_uri'', PStr (ontology_uri h)),
            (''confidence_score'', PFloat (round4 e (hub.confidence_score h))),
            (''load_date'', PStr (isoformat e (hub.load_date h))),
            (''record_source'', PStr (hub.record_source h))]"

definition link_to_dict :: "env \<Rightarrow> link \<Rightarrow> pyval" where
  "link_to_dict e l =
     PDict [(''link_key'', PStr (link_key l)),
            (''hub_source_key'', PStr (hub_source_key l)),
            (''hub_target_key'', PStr (hub_target_key l)),
            (''relation_type'', PStr (relation_type l)),
            (''confidence_score'', PFloat (round4 e (link.confidence_score l))),
            (''load_date'', PStr (isoformat e (link.load_date l))),
            (''record_source'', PStr (link.record_source l))]"

definition satellite_to_dict :: "env \<Rightarrow> satellite \<Rightarrow> pyval" where
  "satellite_to_dict e s =
     PDict [(''satellite_key'', PStr (satellite_key s)),
            (''hub_key'', PStr (satellite.hub_key s)),
            (''attribute_name'', PStr (attribute_name s)),
            (''attribute_value'', PStr (attribute_value s)),
            (''confidence_score'', PFloat (round4 e (satellite.confidence_score s))),
            (''load_date'', PStr (isoformat e (satellite.load_date s))),
            (''record_source'', PStr (satellite.record_source s)),
            (''hash_diff'', PStr (hash_diff s))]"

declare str_nat.simps [simp del]

section \<open>DataVaultSchema and DataVaultGenerator (datavault-generator.py)\<close>

record schema =
  hubs :: "hub list"
  links :: "link list"
  satellites :: "satellite list"
  metadata :: "(string \<times> pyval) list"

text \<open>\<open>DataVaultSchema.to_dict\<close>\<close>

definition to_dict :: "env \<Rightarrow> schema \<Rightarrow> pyval" where
  "to_dict e s =
     PDict [(''metadata'', PDict (metadata s)),
            (''hubs'', PList (map (hub_to_dict e) (hubs s))),
            (''links'', PList (map (link_to_dict e) (links s))),
            (''satellites'', PList (map (satellite_to_dict e) (satellites s)))]"

text \<open>
  \<open>DataVaultGenerator.generate_schema\<close>; \<open>t\<close> is the reading of the clock that stamps the
  metadata.
\<close>

definition generate_schema ::
  "env \<Rightarrow> nat \<Rightarrow> hub list \<Rightarrow> link list \<Rightarrow> satellite list \<Rightarrow> string \<Rightarrow> string list \<Rightarrow> schema" where
  "generate_schema e t hs ls ss source_image lemmas =
     \<lparr>hubs = hs, links = ls, satellites = ss,
      metadata =
        [(''generated_at'', PStr (isoformat e (now e t))),
         (''source_image'', PStr source_image),
         (''original_lemmas'', PList (map PStr lemmas)),
         (''lemmas_count'', PInt (length lemmas)),
         (''generator_version'', PStr ''1.0.0'')]\<rparr>"

text \<open>The accented letters of the diagnostics: e acute and e circumflex.\<close>

definition e_acute :: char where
  "e_acute = CHR 0xE9"

definition e_circ :: char where
  "e_circ = CHR 0xEA"

definition detecte :: string where
  "detecte = ''d'' @ [e_acute] @ ''tect'' @ [e_acute]"

definition reference :: string where
  "reference = ''r'' @ [e_acute] @ ''f'' @ [e_acute] @ ''rence''"

text \<open>
  The four checks. The source passes the schema object to each check, which reads it;
  the model threads the schema through each check and returns it beside the
  diagnostics, so that what a check does to the schema is part of its result.
\<close>

text \<open>\<open>_check_key_uniqueness\<close>: \<open>len(keys) != len(set(keys))\<close> three times.\<close>

definition check_key_uniqueness :: "schema \<Rightarrow> string list \<times> schema" where
  "check_key_uniqueness s =
     (let hub_keys = map hub.hub_key (hubs s);
          link_keys = map link_key (links s);
          satellite_keys = map satellite_key (satellites s)
      in ((if length hub_keys \<noteq> card (set hub_keys)
           then [''ERREUR: Cl'' @ [e_acute] @ ''s Hub en double '' @ detecte @ ''es''] else [])
          @ (if length link_keys \<noteq> card (set link_keys)
             then [''ERREUR: Cl'' @ [e_acute] @ ''s Link en double '' @ detecte @ ''es''] else [])
          @ (if length satellite_keys \<noteq> card (set satellite_keys)
             then [''ERREUR: Cl'' @ [e_acute] @ ''s Satellite en double '' @ detecte @ ''es'']
             else []),
          s))"

text \<open>\<open>_check_referential_integrity\<close>: one loop over the links, one over the satellites.\<close>

definition link_integrity :: "string set \<Rightarrow> link \<Rightarrow> string list" where
  "link_integrity valid_hub_keys l =
     (if hub_source_key l \<notin> valid_hub_keys
      then [''WARNING: Link '' @ take 8 (link_key l) @ ''... '' @ reference
            @ '' un Hub source invalide'']
      else [])
     @ (if hub_target_key l \<notin> valid_hub_keys
        then [''WARNING: Link '' @ take 8 (link_key l) @ ''... '' @ reference
              @ '' un Hub target invalide'']
        else [])"

definition satellite_integrity :: "string set \<Rightarrow> satellite \<Rightarrow> string list" where
  "satellite_integrity valid_hub_keys sat =
     (if satellite.hub_key sat \<notin> valid_hub_keys
      then [''WARNING: Satellite '' @ take 8 (satellite_key sat) @ ''... '' @ reference
            @ '' un Hub invalide'']
      else [])"

definition check_referential_integrity :: "schema \<Rightarrow> string list \<times> schema" where
  "check_referential_integrity s =
     (let valid_hub_keys = set (map hub.hub_key (hubs s))
      in (concat (map (link_integrity valid_hub_keys) (links s))
          @ concat (map (satellite_integrity valid_hub_keys) (satellites s)),
          s))"

text \<open>\<open>_check_confidence_scores\<close>: \<open>not 0 <= score <= 1\<close> for each record.\<close>

definition check_confidence_scores :: "env \<Rightarrow> schema \<Rightarrow> string list \<times> schema" where
  "check_confidence_scores e s =
     (concat (map (\<lambda>h. if \<not> (0 \<le> hub.confidence_score h \<and> hub.confidence_score h \<le> 1)
                         then [''WARNING: Hub '' @ business_key h @ '' a un score invalide: ''
                               @ float_str e (hub.confidence_score h)]
                         else []) (hubs s))
      @ concat (map (\<lambda>l. if \<not> (0 \<le> link.confidence_score l \<and> link.confidence_score l \<le> 1)
                           then [''WARNING: Link '' @ take 8 (link_key l)
                                 @ ''... a un score invalide: ''
                                 @ float_str e (link.confidence_score l)]
                           else []) (links s))
      @ concat (map (\<lambda>sat. if \<not> (0 \<le> satellite.confidence_score sat
                                    \<and> satellite.confidence_score sat \<le> 1)
                             then [''WARNING: Satellite '' @ attribute_name sat
                                   @ '' a un score invalide: ''
                                   @ float_str e (satellite.confidence_score sat)]
                             else []) (satellites s)),
      s)"

text \<open>
  The loop of constraint 3 of \<open>_check_structural_constraints\<close>: it stops (\<open>break\<close>) at the
  first link whose pair of keys was seen before.
\<close>

fun duplicate_pair :: "(string \<times> string) set \<Rightarrow> link list \<Rightarrow> bool" where
  "duplicate_pair link_pairs [] = False"
| "duplicate_pair link_pairs (l # ls) =
     (let pair = (hub_source_key l, hub_target_key l)
      in if pair \<in> link_pairs then True else duplicate_pair (insert pair link_pairs) ls)"

definition check_structural_constraints :: "schema \<Rightarrow> string list \<times> schema" where
  "check_structural_constraints s =
     (let num_hubs = length (hubs s);
          num_links = length (links s)
      in ((if num_hubs = 0
           then [''WARNING: Aucun Hub '' @ detecte @ ''. Au moins une plante devrait ''
                 @ [e_circ] @ ''tre identifi'' @ [e_acute] @ ''e.'']
           else [])
          @ (if num_links > 0 \<and> num_hubs < 2
             then [''WARNING: '' @ str_nat num_links @ '' Link(s) '' @ detecte
                   @ ''(s) mais seulement '' @ str_nat num_hubs @ '' Hub(s). Un Link n''
                   @ [e_acute] @ ''cessite 2 Hubs.'']
             else [])
          @ (if num_links > 1 \<and> duplicate_pair {} (links s)
             then [''WARNING: Links en double '' @ detecte @ ''s entre les m'' @ [e_circ]
                   @ ''mes Hubs.'']
             else []),
          s))"

text \<open>\<open>DataVaultGenerator.validate_schema\<close>: the four checks in order.\<close>

definition validate_schema :: "env \<Rightarrow> schema \<Rightarrow> string list \<times> schema" where
  "validate_schema e s =
     (let (errors1, s1) = check_key_uniqueness s;
          (errors2, s2) = check_referential_integrity s1;
          (errors3, s3) = check_confidence_scores e s2;
          (errors4, s4) = check_structural_constraints s3
      in (errors1 @ errors2 @ errors3 @ errors4, s4))"

text \<open>A diagnostic of the warning class starts with \<open>WARNING:\<close>.\<close>

definition is_warning :: "string \<Rightarrow> bool" where
  "is_warning d = startswith d ''WARNING:''"

text \<open>
  \<open>DataVaultGenerator.merge_schemas\<close>. The state of the loops: the three merged lists and
  the three sets of keys seen.
\<close>

record merge_state =
  merged_hubs :: "hub list"
  merged_links :: "link list"
  merged_satellites :: "satellite list"
  seen_hub_keys :: "string set"
  seen_link_keys :: "string set"
  seen_satellite_keys :: "string set"

definition merge_hub :: "merge_state \<Rightarrow> hub \<Rightarrow> merge_state" where
  "merge_hub st h =
     (if hub.hub_key h \<notin> seen_hub_keys st
      then st\<lparr>merged_hubs := merged_hubs st @ [h],
              seen_hub_keys := insert (hub.hub_key h) (seen_hub_keys st)\<rparr>
      else st)"

definition merge_link :: "merge_state \<Rightarrow> link \<Rightarrow> merge_state" where
  "merge_link st l =
     (if link_key l \<notin> seen_link_keys st
      then st\<lparr>merged_links := merged_links st @ [l],
              seen_link_keys := insert (link_key l) (seen_link_keys st)\<rparr>
      else st)"

definition merge_satellite :: "merge_state \<Rightarrow> satellite \<Rightarrow> merge_state" where
  "merge_satellite st sat =
     st\<lparr>merged_satellites := merged_satellites st @ [sat],
        seen_satellite_keys := insert (satellite_key sat) (seen_satellite_keys st)\<rparr>"

text \<open>The body of \<open>for schema in schemas\<close>: three loops, each a left fold.\<close>

definition merge_schema :: "merge_state \<Rightarrow> schema \<Rightarrow> merge_state" where
  "merge_schema st s =
     foldl merge_satellite (foldl merge_link (foldl merge_hub st (hubs s)) (links s))
       (satellites s)"

text \<open>\<open>s.metadata.get("source_image", "unknown")\<close>\<close>

definition source_image_of :: "schema \<Rightarrow> pyval" where
  "source_image_of s =
     (case map_of (metadata s) ''source_image'' of
        Some v \<Rightarrow> v
      | None \<Rightarrow> PStr ''unknown'')"

text \<open>The empty lists and the empty sets before the loop.\<close>

definition initial_merge_state :: merge_state where
  "initial_merge_state =
     \<lparr>merged_hubs = [], merged_links = [], merged_satellites = [],
      seen_hub_keys = {}, seen_link_keys = {}, seen_satellite_keys = {}\<rparr>"

definition merge_schemas :: "env \<Rightarrow> nat \<Rightarrow> schema list \<Rightarrow> schema" where
  "merge_schemas e t schemas =
     (let st = foldl merge_schema initial_merge_state schemas
      in \<lparr>hubs = merged_hubs st, links = merged_links st,
          satellites = merged_satellites st,
          metadata =
            [(''generated_at'', PStr (isoformat e (now e t))),
             (''merged_from'', PInt (length schemas)),
             (''source_images'', PList (map source_image_of schemas)),
             (''generator_version'', PStr ''1.0.0'')]\<rparr>)"

section \<open>SimilarityCalculator (similarity-calculator.py)\<close>

text \<open>\<open>s.split()\<close>: the maximal runs of characters that are not white space.\<close>

fun split_words :: "string \<Rightarrow> string \<Rightarrow> string list" where
  "split_words cur [] = (if cur = [] then [] else [cur])"
| "split_words cur (c # s) =
     (if is_space c then (if cur = [] then split_words [] s else cur # split_words [] s)
      else split_words (cur @ [c]) s)"

definition str_split :: "string \<Rightarrow> string list" where
  "str_split s = split_words [] s"

text \<open>\<open>sep.join(words)\<close>\<close>

fun str_join :: "string \<Rightarrow> string list \<Rightarrow> string" where
  "str_join sep [] = []"
| "str_join sep [w] = w"
| "str_join sep (w # ws) = w @ sep @ str_join sep ws"

text \<open>\<open>_normalize_cached\<close> (the LRU cache does not change its result).\<close>

definition normalize_cached :: "(char \<Rightarrow> string) \<Rightarrow> string \<Rightarrow> string" where
  "normalize_cached tbl s =
     strip (str_join '' ''
       (str_split (replace_char (CHR ''-'') (CHR '' '')
          (replace_char (CHR ''_'') (CHR '' '') (unidecode tbl (lower s))))))"

text \<open>\<open>_get_ngrams_cached(text, n)\<close>\<close>

definition get_ngrams_cached :: "string \<Rightarrow> nat \<Rightarrow> string list" where
  "get_ngrams_cached txt n =
     (let padded = ''$'' @ txt @ ''$''
      in map (\<lambda>i. take n (drop i padded)) [0 ..< length padded + 1 - n])"

text \<open>
  An exception of the calculator: \<open>numpy.dot\<close> raises \<open>ValueError\<close> on two vectors of
  different lengths.
\<close>

datatype error = ValueError

definition np_dot :: "real list \<Rightarrow> real list \<Rightarrow> error + real" where
  "np_dot v1 v2 =
     (if length v1 \<noteq> length v2 then Inl ValueError
      else Inr (sum_list (map (\<lambda>(x, y). x * y) (zip v1 v2))))"

definition np_norm :: "real list \<Rightarrow> real" where
  "np_norm v = sqrt (sum_list (map (\<lambda>x. x * x) v))"

text \<open>
  \<open>_cosine_similarity\<close>. The branch for the GPU computes the same three numbers with the
  same test, so one definition stands for both.
\<close>

definition cosine_similarity :: "real list \<Rightarrow> real list \<Rightarrow> error + real" where
  "cosine_similarity v1 v2 =
     (case np_dot v1 v2 of
        Inl err \<Rightarrow> Inl err
      | Inr dot_product \<Rightarrow>
          (let norm1 = np_norm v1; norm2 = np_norm v2
           in if norm1 = 0 \<or> norm2 = 0 then Inr 0
              else Inr (dot_product / (norm1 * norm2))))"

text \<open>
  The calculator: its strategy, the transliteration table of \<open>unidecode\<close>, the function
  \<open>jellyfish.jaro_winkler_similarity\<close>, the product of two floats as the machine rounds
  it, and the embedding service. \<open>fetch text\<close> is \<open>Some\<close> of the embedding when the
  request answers with status 200, and \<open>None\<close> when it answers otherwise or raises.
\<close>

record calculator =
  algorithm :: string
  translit :: "char \<Rightarrow> string"
  jaro_winkler :: "string \<Rightarrow> string \<Rightarrow> real"
  float_mul :: "real \<Rightarrow> real \<Rightarrow> real"
  fetch :: "string \<Rightarrow> real list option"

type_synonym embedding_cache = "string \<rightharpoonup> real list"

text \<open>
  \<open>_get_embedding\<close>: the cached vector; else the fetched one, which is cached; else, on
  failure, \<open>np.zeros(384)\<close>, which is not cached.
\<close>

definition get_embedding ::
  "calculator \<Rightarrow> embedding_cache \<Rightarrow> string \<Rightarrow> real list \<times> embedding_cache" where
  "get_embedding c cache txt =
     (case cache txt of
        Some v \<Rightarrow> (v, cache)
      | None \<Rightarrow>
          (case fetch c txt of
             Some embedding \<Rightarrow> (embedding, cache(txt \<mapsto> embedding))
           | None \<Rightarrow> (replicate 384 0, cache)))"

text \<open>\<open>_semantic_similarity\<close>\<close>

definition semantic_similarity ::
  "calculator \<Rightarrow> embedding_cache \<Rightarrow> string \<Rightarrow> string \<Rightarrow> (error + real) \<times> embedding_cache" where
  "semantic_similarity c cache s1 s2 =
     (if s1 = [] \<or> s2 = [] then (Inr 0, cache)
      else
        (let (emb1, cache1) = get_embedding c cache s1;
             (emb2, cache2) = get_embedding c cache1 s2
         in (case cosine_similarity emb1 emb2 of
               Inl err \<Rightarrow> Inl err
             | Inr cos_sim \<Rightarrow> Inr ((cos_sim + 1) / 2),
             cache2)))"

text \<open>
  \<open>_lexical_similarity\<close>. The two bonuses are products of floats, \<open>jw_score * 1.1\<close>
  and \<open>jw_score * 1.15\<close>, which the machine rounds: they go through \<open>float_mul\<close>, with
  \<open>11 / 10\<close> and \<open>115 / 100\<close> standing for the two literals.
\<close>

definition lexical_similarity :: "calculator \<Rightarrow> string \<Rightarrow> string \<Rightarrow> real" where
  "lexical_similarity c s1 s2 =
     (if s1 = [] \<or> s2 = [] then 0
      else
        (let jw_score = jaro_winkler c s1 s2;
             jw_score = (if length s1 \<ge> 3 \<and> length s2 \<ge> 3
                            \<and> (startswith s1 (take 3 s2) \<or> startswith s2 (take 3 s1))
                         then min 1 (float_mul c jw_score (11 / 10)) else jw_score);
             jw_score = (if contains s2 s1 \<or> contains s1 s2
                         then min 1 (float_mul c jw_score (115 / 100)) else jw_score)
         in jw_score))"

text \<open>\<open>_jaro_winkler_similarity\<close>\<close>

definition jaro_winkler_similarity :: "calculator \<Rightarrow> string \<Rightarrow> string \<Rightarrow> real" where
  "jaro_winkler_similarity c s1 s2 = (if s1 = [] \<or> s2 = [] then 0 else jaro_winkler c s1 s2)"

text \<open>
  \<open>_cosine_ngram_similarity\<close>: the two count vectors over the n-grams of both strings,
  listed once each (the order of the listing changes neither product nor norms).
\<close>

definition cosine_ngram_similarity :: "string \<Rightarrow> string \<Rightarrow> nat \<Rightarrow> error + real" where
  "cosine_ngram_similarity s1 s2 n =
     (if s1 = [] \<or> s2 = [] then Inr 0
      else
        (let ngrams1 = get_ngrams_cached s1 n;
             ngrams2 = get_ngrams_cached s2 n;
             all_ngrams = remdups (ngrams1 @ ngrams2);
             vec1 = map (\<lambda>ng. real (count_list ngrams1 ng)) all_ngrams;
             vec2 = map (\<lambda>ng. real (count_list ngrams2 ng)) all_ngrams
         in cosine_similarity vec1 vec2))"

text \<open>\<open>max(a, b)\<close> of two results, the first exception winning.\<close>

definition max_result :: "error + real \<Rightarrow> error + real \<Rightarrow> error + real" where
  "max_result a b =
     (case a of
        Inl err \<Rightarrow> Inl err
      | Inr x \<Rightarrow> (case b of Inl err \<Rightarrow> Inl err | Inr y \<Rightarrow> Inr (max x y)))"

text \<open>\<open>calculate_similarity\<close>: any strategy name other than the five tested is the hybrid.\<close>

definition calculate_similarity ::
  "calculator \<Rightarrow> embedding_cache \<Rightarrow> string \<Rightarrow> string \<Rightarrow> (error + real) \<times> embedding_cache" where
  "calculate_similarity c cache lem ontology_term =
     (let lemma_norm = normalize_cached (translit c) lem;
          term_norm = normalize_cached (translit c) ontology_term
      in if lemma_norm = term_norm then (Inr 1, cache)
         else if algorithm c = ''lexical''
           then (Inr (lexical_similarity c lemma_norm term_norm), cache)
         else if algorithm c = ''semantic''
           then semantic_similarity c cache lem ontology_term
         else if algorithm c = ''jaro_winkler''
           then (Inr (jaro_winkler_similarity c lemma_norm term_norm), cache)
         else if algorithm c = ''cosine''
           then (cosine_ngram_similarity lemma_norm term_norm 2, cache)
         else if algorithm c = ''jaro_cosine''
           then (max_result (Inr (jaro_winkler_similarity c lemma_norm term_norm))
                   (cosine_ngram_similarity lemma_norm term_norm 2), cache)
         else
           (let sim_lex = lexical_similarity c lemma_norm term_norm;
                (sim_sem, cache') = semantic_similarity c cache lem ontology_term
            in (max_result (Inr sim_lex) sim_sem, cache')))"

text \<open>
  \<open>find_best_match\<close>. It reads the calculator only through
  \<open>self.calculate_similarity(lemma, term)\<close>; the parameter \<open>calc\<close> is that method as a
  function of its two arguments, returning a score. The loop carries \<open>best_term\<close> and
  \<open>best_score\<close>.
\<close>

fun best_match_loop ::
  "(string \<Rightarrow> string \<Rightarrow> real) \<Rightarrow> string \<Rightarrow> real \<Rightarrow> string option \<Rightarrow> real \<Rightarrow> string list
   \<Rightarrow> string option \<times> real" where
  "best_match_loop calc lem threshold best_term best_score [] = (best_term, best_score)"
| "best_match_loop calc lem threshold best_term best_score (t # ts) =
     (let score = calc lem t
      in if score > best_score \<and> score \<ge> threshold
         then best_match_loop calc lem threshold (Some t) score ts
         else best_match_loop calc lem threshold best_term best_score ts)"

definition find_best_match ::
  "(string \<Rightarrow> string \<Rightarrow> real) \<Rightarrow> string \<Rightarrow> string list \<Rightarrow> real \<Rightarrow> string option \<times> real" where
  "find_best_match calc lem ontology_terms threshold =
     (if ontology_terms = [] then (None, 0)
      else best_match_loop calc lem threshold None 0 ontology_terms)"

text \<open>
  The score of the semantic strategy while the embedding service is down (every fetch
  fails) and nothing is cached: 1 for two strings with one normal form, 0 when a string
  is empty, and one half otherwise. That strategy reads neither the Jaro-Winkler function
  nor the product of floats.
\<close>

definition offline_calculator :: calculator where
  "offline_calculator =
     \<lparr>algorithm = ''semantic'', translit = translit_fr, jaro_winkler = (\<lambda>a b. 0),
      float_mul = (\<lambda>x y. x * y),
      fetch = (\<lambda>txt. None)\<rparr>"

definition offline_score :: "string \<Rightarrow> string \<Rightarrow> real" where
  "offline_score a b =
     (if normalize_cached translit_fr a = normalize_cached translit_fr b then 1
      else if a = [] \<or> b = [] then 0
      else 1 / 2)"

section \<open>OntologyMatcher (ontology-matcher.py)\<close>

text \<open>The controlled vocabulary, class constants of \<open>OntologyMatcher\<close>.\<close>

definition PLANTES :: "string set" where
  "PLANTES = {''corn'', ''onion'', ''tomato'', ''mais'', ''oignon'', ''tomate''}"

definition MALADIES :: "string set" where
  "MALADIES =
     {''helminthosporiose'', ''rouille'', ''fusariose'', ''curvulariose'', ''striure'',
      ''virose'', ''alternariose'', ''mildiou'', ''pourriture_blanche'', ''bacteriose'',
      ''bacterial_wilt'', ''virus_tylcv'', ''stress_abiotique''}"

definition RAVAGEURS :: "string set" where
  "RAVAGEURS =
     {''foreur_tige'', ''chenille_legionnaire'', ''puceron'', ''cicadelle'', ''thrips'',
      ''mouche_oignon'', ''chenille'', ''nematode'', ''aleurode'', ''acarien'', ''mineuse'',
      ''noctuelle''}"

definition RELATIONS :: "string set" where
  "RELATIONS = {''has_disease'', ''has_infestation'', ''has_health_status''}"

definition SYMPTOMES :: "string set" where
  "SYMPTOMES =
     {''chlorose'', ''necrose'', ''fletrissement'', ''tache'', ''lesion'', ''pourriture'',
      ''deformation'', ''mosaique'', ''galerie'', ''perforation'', ''miellat'', ''striure'',
      ''galle'', ''nanisme'', ''toile'', ''morsure''}"

definition ETAT_FOLIAIRE :: "string set" where
  "ETAT_FOLIAIRE =
     {''saine'', ''malade'', ''fletrie'', ''seche'', ''tachetee'', ''chlorotique'',
      ''necrotique'', ''perforee'', ''enroulee'', ''turgescente'', ''cassante'', ''mourante'',
      ''morte'', ''brulee'', ''decoloree'', ''rougie'', ''tordue'', ''froissee'', ''tombante'',
      ''dressee'', ''aplatie'', ''ratatinee'', ''dechiree'', ''striee'', ''marbree'',
      ''poudreuse'', ''collante'', ''fumagine'', ''entoilee'', ''minee'', ''jeune'', ''mature'',
      ''senescente''}"

definition MORPHOLOGIE_COULEUR :: "string set" where
  "MORPHOLOGIE_COULEUR =
     {''vert_fonce'', ''vert_clair'', ''vert_jaunatre'', ''jaune'', ''brun'', ''vert_bleuatre'',
      ''vert_grisatre'', ''vert'', ''rouge'', ''orange'', ''noir'', ''blanc''}"

definition MORPHOLOGIE_FORME :: "string set" where
  "MORPHOLOGIE_FORME =
     {''lineaire_lanceolee'', ''tubulaire_cylindrique'', ''composee_imparipennee'', ''simple'',
      ''composee'', ''simple_tubulaire'', ''ovale'', ''lanceolee''}"

definition MORPHOLOGIE_TEXTURE :: "string set" where
  "MORPHOLOGIE_TEXTURE =
     {''lisse'', ''rugueuse'', ''cireuse'', ''creuse'', ''pubescente'', ''glanduleuse'',
      ''lisse_cireuse'', ''legerement_rugueuse''}"

definition MORPHOLOGIE_NERVATION :: "string set" where
  "MORPHOLOGIE_NERVATION =
     {''nervation_parallele'', ''nervation_reticulee'', ''parallele'', ''reticulee''}"

text \<open>A relation of the ontology, with the two fields the matcher reads.\<close>

record ontology_relation =
  rel_lemma :: string
  label_normalized :: string

text \<open>
  The matcher: the relations \<open>self.R.values()\<close> of the ontology, the score function of
  its similarity calculator, its thresholds, and the two lists \<open>list(self.hub_vocabulary)\<close>
  and \<open>list(self.satellite_vocabulary)\<close>, the terms of each set in the order in which
  Python enumerates it (an order the program does not fix).
\<close>

record matcher =
  R :: "ontology_relation list"
  calc :: "string \<Rightarrow> string \<Rightarrow> real"
  thresholds :: "string \<rightharpoonup> real"
  hub_terms :: "string list"
  satellite_terms :: "string list"

text \<open>\<open>_build_vocabulary_sets\<close> and \<open>_enrich_from_ontology\<close>\<close>

definition hub_vocabulary :: "string set" where
  "hub_vocabulary = PLANTES \<union> MALADIES \<union> RAVAGEURS"

definition satellite_vocabulary :: "string set" where
  "satellite_vocabulary =
     SYMPTOMES \<union> ETAT_FOLIAIRE \<union> MORPHOLOGIE_COULEUR \<union> MORPHOLOGIE_FORME
     \<union> MORPHOLOGIE_TEXTURE \<union> MORPHOLOGIE_NERVATION"

definition enrich_lemma :: "ontology_relation \<Rightarrow> string" where
  "enrich_lemma r = (if rel_lemma r \<noteq> [] then lower (rel_lemma r) else label_normalized r)"

definition link_vocabulary :: "matcher \<Rightarrow> string set" where
  "link_vocabulary m =
     RELATIONS \<union> {l \<in> set (map enrich_lemma (R m)). l \<noteq> [] \<and> contains l ''has_''}"

text \<open>
  \<open>satellite_type_map\<close>: six loops of assignments, a later one overriding an earlier one.
\<close>

definition type_entries :: "string set \<Rightarrow> string \<Rightarrow> (string \<rightharpoonup> string)" where
  "type_entries terms ty = (\<lambda>l. if l \<in> terms then Some ty else None)"

definition satellite_type_map :: "string \<rightharpoonup> string" where
  "satellite_type_map =
     type_entries SYMPTOMES ''symptome'' ++ type_entries ETAT_FOLIAIRE ''etat_foliaire''
     ++ type_entries MORPHOLOGIE_COULEUR ''couleur'' ++ type_entries MORPHOLOGIE_FORME ''forme''
     ++ type_entries MORPHOLOGIE_TEXTURE ''texture''
     ++ type_entries MORPHOLOGIE_NERVATION ''nervation''"

text \<open>\<open>_classify_lemma\<close>: the pair (category, sub-type).\<close>

definition classify_lemma :: "matcher \<Rightarrow> string \<Rightarrow> string \<times> string option" where
  "classify_lemma m lem =
     (let lemma_lower = strip (lower lem)
      in if lemma_lower \<in> PLANTES then (''hub'', Some ''plante'')
         else if lemma_lower \<in> MALADIES then (''hub'', Some ''maladie'')
         else if lemma_lower \<in> RAVAGEURS then (''hub'', Some ''ravageur'')
         else if lemma_lower \<in> RELATIONS \<or> lemma_lower \<in> link_vocabulary m
           then (''link'', Some ''relation'')
         else if lemma_lower \<in> SYMPTOMES then (''satellite'', Some ''symptome'')
         else if lemma_lower \<in> ETAT_FOLIAIRE then (''satellite'', Some ''etat_foliaire'')
         else if lemma_lower \<in> MORPHOLOGIE_COULEUR then (''satellite'', Some ''couleur'')
         else if lemma_lower \<in> MORPHOLOGIE_FORME then (''satellite'', Some ''forme'')
         else if lemma_lower \<in> MORPHOLOGIE_TEXTURE then (''satellite'', Some ''texture'')
         else if lemma_lower \<in> MORPHOLOGIE_NERVATION then (''satellite'', Some ''nervation'')
         else (''unknown'', None))"

text \<open>\<open>OntologyMatcher._find_best_match\<close>; \<open>vocabulary\<close> is \<open>list(vocabulary)\<close>.\<close>

definition matcher_find_best_match ::
  "matcher \<Rightarrow> string \<Rightarrow> string list \<Rightarrow> real \<Rightarrow> string option \<times> real" where
  "matcher_find_best_match m lem vocabulary threshold =
     (if vocabulary = [] then (None, 0)
      else find_best_match (calc m) (lower lem) vocabulary threshold)"

text \<open>\<open>thresholds.get(key, default)\<close>\<close>

definition threshold_get :: "matcher \<Rightarrow> string \<Rightarrow> real \<Rightarrow> real" where
  "threshold_get m k d = (case thresholds m k of Some v \<Rightarrow> v | None \<Rightarrow> d)"

text \<open>
  The state of \<open>classify_lemmas\<close>: its two growing lists, its three slots, and the number
  of readings of the clock taken so far (each constructor of a record takes one).
\<close>

record classify_state =
  hubs_list :: "hub list"
  satellites_list :: "(string \<times> string) list"
  plante_hub :: "hub option"
  probleme_hub :: "hub option"
  relation_lemma :: "string option"
  ticks :: nat

definition ontology_prefix :: string where
  "ontology_prefix = ''http://example.org/ontology#''"

text \<open>
  \<open>_classify_unknown_lemma\<close>. It receives the two lists and appends to them; the slots
  are local variables of \<open>classify_lemmas\<close>, which it does not see. \<open>if best_hub:\<close> is
  Python's truth of an optional string: neither \<open>None\<close> nor empty.
\<close>

definition classify_unknown_lemma ::
  "matcher \<Rightarrow> env \<Rightarrow> string \<Rightarrow> classify_state \<Rightarrow> string \<Rightarrow> classify_state" where
  "classify_unknown_lemma m e image_source st lem =
     (let theta_c = threshold_get m ''entities'' (75 / 100);
          theta_a = threshold_get m ''attributes'' (65 / 100);
          (best_hub, hub_score) = matcher_find_best_match m lem (hub_terms m) theta_c
      in if best_hub \<noteq> None \<and> best_hub \<noteq> Some []
         then
           (let entity_type = (if the best_hub \<in> PLANTES then ''plante''
                               else if the best_hub \<in> MALADIES then ''maladie''
                               else ''ravageur'');
                h = Hub e (ticks st) (lower lem) entity_type image_source
                      (ontology_prefix @ the best_hub) hub_score
            in st\<lparr>hubs_list := hubs_list st @ [h], ticks := Suc (ticks st)\<rparr>)
         else
           (let (best_sat, sat_score) =
                  matcher_find_best_match m lem (satellite_terms m) theta_a
            in if best_sat \<noteq> None \<and> best_sat \<noteq> Some []
               then
                 (let attr_type = (case satellite_type_map (the best_sat) of
                                     Some ty \<Rightarrow> ty
                                   | None \<Rightarrow> ''attribut'')
                  in st\<lparr>satellites_list := satellites_list st @ [(lem, attr_type)]\<rparr>)
               else if length lem > 2
                 then st\<lparr>satellites_list := satellites_list st @ [(lem, ''description'')]\<rparr>
               else st))"

text \<open>Phase 1 of \<open>classify_lemmas\<close>: the body of the loop over the lemmas.\<close>

definition classify_step ::
  "matcher \<Rightarrow> env \<Rightarrow> string \<Rightarrow> classify_state \<Rightarrow> string \<Rightarrow> classify_state" where
  "classify_step m e image_source st lem =
     (let (category, sub_type) = classify_lemma m lem
      in if category = ''hub''
         then
           (if sub_type = Some ''plante''
            then
              (let h = Hub e (ticks st) (lower lem) ''plante'' image_source
                         (ontology_prefix @ lem) 1
               in st\<lparr>plante_hub := Some h, hubs_list := hubs_list st @ [h],
                      ticks := Suc (ticks st)\<rparr>)
            else if sub_type = Some ''maladie'' \<or> sub_type = Some ''ravageur''
            then
              (let h = Hub e (ticks st) (lower lem) (the sub_type) image_source
                         (ontology_prefix @ lem) 1
               in st\<lparr>probleme_hub := Some h, hubs_list := hubs_list st @ [h],
                      ticks := Suc (ticks st)\<rparr>)
            else st)
         else if category = ''link''
           then st\<lparr>relation_lemma := Some (lower lem)\<rparr>
         else if category = ''satellite''
           then st\<lparr>satellites_list := satellites_list st @ [(lem, the sub_type)]\<rparr>
         else classify_unknown_lemma m e image_source st lem)"

text \<open>Phase 2: the link, when both slots are filled.\<close>

definition build_links :: "env \<Rightarrow> string \<Rightarrow> classify_state \<Rightarrow> link list" where
  "build_links e image_source st =
     (case (plante_hub st, probleme_hub st) of
        (Some plante, Some probleme) \<Rightarrow>
          (let relation_type =
                 (if relation_lemma st \<noteq> None \<and> relation_lemma st \<noteq> Some []
                    then the (relation_lemma st)
                  else if entity_type probleme = ''maladie'' then ''has_disease''
                  else if entity_type probleme = ''ravageur'' then ''has_infestation''
                  else ''has_health_status'')
           in [Link e (ticks st) (hub.hub_key plante) (hub.hub_key probleme) relation_type
                 image_source 1])
      | _ \<Rightarrow> [])"

text \<open>
  Phase 3: the parent of a satellite candidate, or \<open>None\<close> where the loop continues
  without creating a satellite.
\<close>

definition DISEASE_SAT_TYPES :: "string set" where
  "DISEASE_SAT_TYPES = {''symptome''}"

definition parent_hub :: "classify_state \<Rightarrow> string \<Rightarrow> hub option" where
  "parent_hub st attr_type =
     (if attr_type \<in> DISEASE_SAT_TYPES \<and> probleme_hub st \<noteq> None then probleme_hub st
      else if plante_hub st \<noteq> None then plante_hub st
      else if hubs_list st \<noteq> [] then Some (hd (hubs_list st))
      else None)"

fun build_satellites ::
  "env \<Rightarrow> string \<Rightarrow> classify_state \<Rightarrow> nat \<Rightarrow> (string \<times> string) list \<Rightarrow> satellite list" where
  "build_satellites e image_source st t [] = []"
| "build_satellites e image_source st t ((lem, attr_type) # rest) =
     (case parent_hub st attr_type of
        None \<Rightarrow> build_satellites e image_source st t rest
      | Some parent \<Rightarrow>
          Satellite e t (hub.hub_key parent) attr_type (lower lem) image_source (95 / 100)
          # build_satellites e image_source st (Suc t) rest)"

text \<open>
  \<open>classify_lemmas\<close>: the fold over the lemmas, then the link, then the satellites. The
  clock starts at reading \<open>t0\<close>.
\<close>

definition initial_state :: "nat \<Rightarrow> classify_state" where
  "initial_state t0 =
     \<lparr>hubs_list = [], satellites_list = [], plante_hub = None, probleme_hub = None,
      relation_lemma = None, ticks = t0\<rparr>"

definition classify_lemmas ::
  "matcher \<Rightarrow> env \<Rightarrow> nat \<Rightarrow> string list \<Rightarrow> string \<Rightarrow> hub list \<times> link list \<times> satellite list" where
  "classify_lemmas m e t0 lemmas image_source =
     (let st = foldl (classify_step m e image_source) (initial_state t0) lemmas;
          links_list = build_links e image_source st;
          final_satellites =
            build_satellites e image_source st (ticks st + length links_list)
              (satellites_list st)
      in (hubs_list st, links_list, final_satellites))"

section \<open>Predicates on the input of the classification\<close>

text \<open>
  What \<open>_classify_lemma\<close> says of a lemma: a plant, a problem (disease or pest), or a
  relation.
\<close>

definition is_plant_lemma :: "matcher \<Rightarrow> string \<Rightarrow> bool" where
  "is_plant_lemma m l \<longleftrightarrow> classify_lemma m l = (''hub'', Some ''plante'')"

definition is_problem_lemma :: "matcher \<Rightarrow> string \<Rightarrow> bool" where
  "is_problem_lemma m l \<longleftrightarrow>
     classify_lemma m l = (''hub'', Some ''maladie'')
     \<or> classify_lemma m l = (''hub'', Some ''ravageur'')"

definition is_relation_lemma :: "matcher \<Rightarrow> string \<Rightarrow> bool" where
  "is_relation_lemma m l \<longleftrightarrow> classify_lemma m l = (''link'', Some ''relation'')"

text \<open>A hub of a problem has the entity type of a disease or of a pest.\<close>

definition is_problem_hub :: "hub \<Rightarrow> bool" where
  "is_problem_hub h \<longleftrightarrow> entity_type h = ''maladie'' \<or> entity_type h = ''ravageur''"

text \<open>
  What the merge has done to the hubs once it has gone through the list \<open>p\<close> of hubs:
  the keys seen are the keys of \<open>p\<close>, the merged hubs have distinct keys, which are
  the keys seen, and each merged hub is the first hub of \<open>p\<close> with its key. And the
  same for the links.
\<close>

definition hubs_merged_from :: "merge_state \<Rightarrow> hub list \<Rightarrow> bool" where
  "hubs_merged_from st p \<longleftrightarrow>
     seen_hub_keys st = hub.hub_key ` set p
     \<and> distinct (map hub.hub_key (merged_hubs st))
     \<and> hub.hub_key ` set (merged_hubs st) = seen_hub_keys st
     \<and> (\<forall>h\<in>set (merged_hubs st).
           find (\<lambda>h'. hub.hub_key h' = hub.hub_key h) p = Some h)"

definition links_merged_from :: "merge_state \<Rightarrow> link list \<Rightarrow> bool" where
  "links_merged_from st p \<longleftrightarrow>
     seen_link_keys st = link_key ` set p
     \<and> distinct (map link_key (merged_links st))
     \<and> link_key ` set (merged_links st) = seen_link_keys st
     \<and> (\<forall>l\<in>set (merged_links st). find (\<lambda>l'. link_key l' = link_key l) p = Some l)"

text \<open>
  The lemmas of the input that decide the link: the last relation lemma, the last
  problem lemma and the entity type that \<open>_classify_lemma\<close> gives it.
\<close>

definition relation_lemmas :: "matcher \<Rightarrow> string list \<Rightarrow> string list" where
  "relation_lemmas m lemmas = filter (is_relation_lemma m) lemmas"

definition problem_lemmas :: "matcher \<Rightarrow> string list \<Rightarrow> string list" where
  "problem_lemmas m lemmas = filter (is_problem_lemma m) lemmas"

definition problem_type :: "matcher \<Rightarrow> string \<Rightarrow> string" where
  "problem_type m l =
     (if classify_lemma m l = (''hub'', Some ''maladie'') then ''maladie'' else ''ravageur'')"

text \<open>
  What phase 1 has done once it has gone through the lemmas: the slot of the plant is
  filled when a lemma was a plant, with a hub of the list; the slot of the problem holds
  the hub of the last problem lemma, a hub of the list; the relation is the last
  relation lemma in lower case; and the list has a problem hub for each problem lemma.
\<close>

definition phase1_summary ::
  "matcher \<Rightarrow> env \<Rightarrow> string list \<Rightarrow> classify_state \<Rightarrow> bool" where
  "phase1_summary m e lemmas st \<longleftrightarrow>
     (plante_hub st \<noteq> None \<longleftrightarrow> (\<exists>l\<in>set lemmas. is_plant_lemma m l))
     \<and> (\<forall>h. plante_hub st = Some h \<longrightarrow> h \<in> set (hubs_list st) \<and> entity_type h = ''plante'')
     \<and> (if problem_lemmas m lemmas = [] then probleme_hub st = None
         else \<exists>h. probleme_hub st = Some h \<and> h \<in> set (hubs_list st)
                \<and> business_key h = lower (last (problem_lemmas m lemmas))
                \<and> entity_type h = problem_type m (last (problem_lemmas m lemmas))
                \<and> hub.hub_key h
                    = generate_hub_key e (lower (last (problem_lemmas m lemmas)))
                        (problem_type m (last (problem_lemmas m lemmas))))
     \<and> relation_lemma st
         = (if relation_lemmas m lemmas = [] then None
            else Some (lower (last (relation_lemmas m lemmas))))
     \<and> length (problem_lemmas m lemmas) \<le> length (filter is_problem_hub (hubs_list st))"

section \<open>Concrete inputs\<close>

text \<open>
  An environment for concrete runs: a hash without collisions (the identity), a clock
  that reads 1000, 1001, ..., dates printed as numbers, and no rounding.
\<close>

definition env0 :: env where
  "env0 =
     \<lparr>md5_hex = (\<lambda>s. s), now = (\<lambda>k. 1000 + k), timestamp_str = str_nat,
      isoformat = str_nat,
      float_str = (\<lambda>x. if x = 1 then ''1.0'' else if x = 95 / 100 then ''0.95'' else ''0.5''),
      round4 = (\<lambda>x. x)\<rparr>"

text \<open>
  A matcher over a calculator of the semantic strategy whose embedding service is down,
  with the thresholds of \<open>config.py\<close>, no relation from the ontology, and the two
  vocabularies enumerated in the order the source writes them.
\<close>

definition hub_terms0 :: "string list" where
  "hub_terms0 =
     [''corn'', ''onion'', ''tomato'', ''mais'', ''oignon'', ''tomate'',
      ''helminthosporiose'', ''rouille'', ''fusariose'', ''curvulariose'', ''striure'',
      ''virose'', ''alternariose'', ''mildiou'', ''pourriture_blanche'', ''bacteriose'',
      ''bacterial_wilt'', ''virus_tylcv'', ''stress_abiotique'',
      ''foreur_tige'', ''chenille_legionnaire'', ''puceron'', ''cicadelle'', ''thrips'',
      ''mouche_oignon'', ''chenille'', ''nematode'', ''aleurode'', ''acarien'', ''mineuse'',
      ''noctuelle'']"

definition satellite_terms0 :: "string list" where
  "satellite_terms0 =
     [''chlorose'', ''necrose'', ''fletrissement'', ''tache'', ''lesion'', ''pourriture'',
      ''deformation'', ''mosaique'', ''galerie'', ''perforation'', ''miellat'', ''striure'',
      ''galle'', ''nanisme'', ''toile'', ''morsure'',
      ''saine'', ''malade'', ''fletrie'', ''seche'', ''tachetee'', ''chlorotique'',
      ''necrotique'', ''perforee'', ''enroulee'', ''turgescente'', ''cassante'', ''mourante'',
      ''morte'', ''brulee'', ''decoloree'', ''rougie'', ''tordue'', ''froissee'', ''tombante'',
      ''dressee'', ''aplatie'', ''ratatinee'', ''dechiree'', ''striee'', ''marbree'',
      ''poudreuse'', ''collante'', ''fumagine'', ''entoilee'', ''minee'', ''jeune'', ''mature'',
      ''senescente'',
      ''vert_fonce'', ''vert_clair'', ''vert_jaunatre'', ''jaune'', ''brun'', ''vert_bleuatre'',
      ''vert_grisatre'', ''vert'', ''rouge'', ''orange'', ''noir'', ''blanc'',
      ''lineaire_lanceolee'', ''tubulaire_cylindrique'', ''composee_imparipennee'', ''simple'',
      ''composee'', ''simple_tubulaire'', ''ovale'', ''lanceolee'',
      ''lisse'', ''rugueuse'', ''cireuse'', ''creuse'', ''pubescente'', ''glanduleuse'',
      ''lisse_cireuse'', ''legerement_rugueuse'',
      ''nervation_parallele'', ''nervation_reticulee'', ''parallele'', ''reticulee'']"

definition offline_matcher :: matcher where
  "offline_matcher =
     \<lparr>R = [], calc = offline_score,
      thresholds = [''entities'' \<mapsto> 75 / 100, ''relations'' \<mapsto> 70 / 100,
                    ''attributes'' \<mapsto> 65 / 100],
      hub_terms = hub_terms0, satellite_terms = satellite_terms0\<rparr>"


text \<open>
  Two schemas of two images, each with the hub of the plant corn and one satellite, and
  a schema whose link points to a hub that is not there.
\<close>

definition corn_uri :: string where
  "corn_uri = ontology_prefix @ ''corn''"

definition schema_a :: schema where
  "schema_a =
     generate_schema env0 2
       [Hub env0 0 ''corn'' ''plante'' ''img1.jpg'' corn_uri 1] []
       [Satellite env0 1 (generate_hub_key env0 ''corn'' ''plante'') ''couleur'' ''vert''
          ''img1.jpg'' (95 / 100)]
       ''img1.jpg'' [''corn'', ''vert'']"

definition schema_b :: schema where
  "schema_b =
     generate_schema env0 5
       [Hub env0 3 ''corn'' ''plante'' ''img2.jpg'' corn_uri 1] []
       [Satellite env0 4 (generate_hub_key env0 ''corn'' ''plante'') ''couleur'' ''jaune''
          ''img2.jpg'' (95 / 100)]
       ''img2.jpg'' [''corn'', ''jaune'']"

definition dangling_link :: link where
  "dangling_link =
     Link env0 1 (generate_hub_key env0 ''corn'' ''plante'')
       (generate_hub_key env0 ''rouille'' ''maladie'') ''has_disease'' ''img1.jpg'' 1"

definition dangling_schema :: schema where
  "dangling_schema =
     generate_schema env0 2
       [Hub env0 0 ''corn'' ''plante'' ''img1.jpg'' corn_uri 1] [dangling_link] []
       ''img1.jpg'' [''corn'', ''has_disease'']"

section \<open>Evaluation rules\<close>

lemmas str_eval =
  lower_def lower_char_def ascii_upper_def ascii_lower_def latin1_upper_def latin1_lower_def
  replace_char_def unidecode_def is_ascii_def normalize_term_def strip_def is_space_def

lemmas vocab =
  PLANTES_def MALADIES_def RAVAGEURS_def RELATIONS_def SYMPTOMES_def ETAT_FOLIAIRE_def
  MORPHOLOGIE_COULEUR_def MORPHOLOGIE_FORME_def MORPHOLOGIE_TEXTURE_def
  MORPHOLOGIE_NERVATION_def

section \<open>The validator: validate-term and identify-plant\<close>

lemma find_first:
  "\<forall>u\<in>set pre. \<not> P u \<Longrightarrow> P t \<Longrightarrow> find P (pre @ t # post) = Some t"
  by (induction pre) auto

lemma find_none: "\<forall>u\<in>set xs. \<not> P u \<Longrightarrow> find P xs = None"
  by (induction xs) auto

text \<open>
  C6, as the specification words it, fails at two places. On the empty term the
  procedure of the specification finds the empty string inside the first entry of the
  category, where the code returns \<open>None\<close> before it normalises anything. And a
  category that contains \<open>necrose\<close> need not give \<open>necrose\<close> for \<open>necrose_severe\<close>:
  an earlier entry in a substring relation with the term wins, as \<open>rose\<close> does here.
\<close>

theorem validate_term_empty_term:
  "validate_term translit_fr no_close_matches '''' [''necrose''] default_cutoff = None
   \<and> validate_term_spec translit_fr no_close_matches '''' [''necrose''] default_cutoff
       = Some ''necrose''
   \<and> validate_term translit_fr no_close_matches ''necrose_severe'' [''rose'', ''necrose'']
       default_cutoff = Some ''rose''"
  by (simp add: validate_term_def validate_term_spec_def str_eval)

text \<open>
  C6, amended: for the empty term \<open>validate_term\<close> returns \<open>None\<close> at once, whatever
  the category is. For a term that is not empty, it normalises the term and returns the
  exact match when the category has it; else the first entry of the category, in its
  order, that contains the term or is contained in it; else what the fuzzy matcher
  returns under the cutoff, if anything; else \<open>None\<close>; so it agrees with the procedure
  of the specification on every term that is not empty. Validating \<open>necrose_severe\<close>
  against a category that contains \<open>necrose\<close>, does not contain \<open>necrose_severe\<close>, and
  has no entry before \<open>necrose\<close> in a substring relation with \<open>necrose_severe\<close>
  returns \<open>necrose\<close>, whatever the fuzzy matcher and the transliteration table are: the
  substring step decides. The category of the symptoms is such a category.
\<close>

theorem validate_term_order:
  "validate_term tbl gcm [] terms cutoff = None
   \<and> (v \<noteq> [] \<and> normalize_term tbl v \<in> set terms
        \<longrightarrow> validate_term tbl gcm v terms cutoff = Some (normalize_term tbl v))
   \<and> (v \<noteq> [] \<and> normalize_term tbl v \<notin> set terms
        \<and> terms = pre @ t # post
        \<and> (contains (normalize_term tbl v) t \<or> contains t (normalize_term tbl v))
        \<and> (\<forall>u\<in>set pre. \<not> (contains (normalize_term tbl v) u
                               \<or> contains u (normalize_term tbl v)))
        \<longrightarrow> validate_term tbl gcm v terms cutoff = Some t)
   \<and> (v \<noteq> [] \<and> normalize_term tbl v \<notin> set terms
        \<and> (\<forall>u\<in>set terms. \<not> (contains (normalize_term tbl v) u
                                 \<or> contains u (normalize_term tbl v)))
        \<longrightarrow> validate_term tbl gcm v terms cutoff
              = (case gcm (normalize_term tbl v) terms cutoff of
                   [] \<Rightarrow> None
                 | m # _ \<Rightarrow> Some m))
   \<and> (v \<noteq> [] \<longrightarrow> validate_term tbl gcm v terms cutoff = validate_term_spec tbl gcm v terms cutoff)
   \<and> (''necrose_severe'' \<notin> set category
        \<and> category = cat_pre @ ''necrose'' # cat_post
        \<and> (\<forall>u\<in>set cat_pre. \<not> (contains ''necrose_severe'' u \<or> contains u ''necrose_severe''))
        \<longrightarrow> validate_term tbl gcm ''necrose_severe'' category cutoff = Some ''necrose'')
   \<and> validate_term tbl gcm ''necrose_severe'' SATELLITES_symptomes cutoff = Some ''necrose''"
proof (intro conjI impI)
  show "validate_term tbl gcm [] terms cutoff = None"
    by (simp add: validate_term_def)
  show "validate_term tbl gcm ''necrose_severe'' SATELLITES_symptomes cutoff = Some ''necrose''"
    by (simp add: validate_term_def SATELLITES_symptomes_def str_eval)
  {
    assume "v \<noteq> []"
    then show "validate_term tbl gcm v terms cutoff = validate_term_spec tbl gcm v terms cutoff"
      by (simp add: validate_term_def validate_term_spec_def)
  }
  {
    assume "v \<noteq> [] \<and> normalize_term tbl v \<in> set terms"
    then show "validate_term tbl gcm v terms cutoff = Some (normalize_term tbl v)"
      by (simp add: validate_term_def)
  }
  {
    assume a: "v \<noteq> [] \<and> normalize_term tbl v \<notin> set terms
        \<and> terms = pre @ t # post
        \<and> (contains (normalize_term tbl v) t \<or> contains t (normalize_term tbl v))
        \<and> (\<forall>u\<in>set pre. \<not> (contains (normalize_term tbl v) u
                               \<or> contains u (normalize_term tbl v)))"
    then have f: "find (\<lambda>t. contains (normalize_term tbl v) t \<or> contains t (normalize_term tbl v))
                 terms = Some t"
      using find_first
        [of pre "\<lambda>t. contains (normalize_term tbl v) t \<or> contains t (normalize_term tbl v)" t post]
      by blast
    from a have v: "v \<noteq> []" and ne: "normalize_term tbl v \<notin> set terms" by blast+
    show "validate_term tbl gcm v terms cutoff = Some t"
      unfolding validate_term_def Let_def using v ne f by simp
  }
  {
    assume a: "v \<noteq> [] \<and> normalize_term tbl v \<notin> set terms
        \<and> (\<forall>u\<in>set terms. \<not> (contains (normalize_term tbl v) u
                                 \<or> contains u (normalize_term tbl v)))"
    then have f: "find (\<lambda>t. contains (normalize_term tbl v) t \<or> contains t (normalize_term tbl v))
                 terms = None"
      using find_none
        [of terms "\<lambda>t. contains (normalize_term tbl v) t \<or> contains t (normalize_term tbl v)"]
      by blast
    from a have v: "v \<noteq> []" and ne: "normalize_term tbl v \<notin> set terms" by blast+
    show "validate_term tbl gcm v terms cutoff
              = (case gcm (normalize_term tbl v) terms cutoff of
                   [] \<Rightarrow> None
                 | m # _ \<Rightarrow> Some m)"
      unfolding validate_term_def Let_def using v ne f by simp
  }
  {
    assume a: "''necrose_severe'' \<notin> set category
        \<and> category = cat_pre @ ''necrose'' # cat_post
        \<and> (\<forall>u\<in>set cat_pre. \<not> (contains ''necrose_severe'' u \<or> contains u ''necrose_severe''))"
    have n: "normalize_term tbl ''necrose_severe'' = ''necrose_severe''"
      by (simp add: str_eval)
    have c: "contains ''necrose_severe'' ''necrose''"
      by simp
    from a c have f: "find (\<lambda>t. contains ''necrose_severe'' t \<or> contains t ''necrose_severe'')
                 category = Some ''necrose''"
      using find_first
        [of cat_pre "\<lambda>t. contains ''necrose_severe'' t \<or> contains t ''necrose_severe''"
           "''necrose''" cat_post]
      by blast
    from a have ne: "''necrose_severe'' \<notin> set category" by blast
    show "validate_term tbl gcm ''necrose_severe'' category cutoff = Some ''necrose''"
      unfolding validate_term_def Let_def n using ne f by simp
  }
qed

theorem validate_term_order_witness:
  "''Necrose severe'' \<noteq> []
   \<and> normalize_term translit_fr ''Necrose severe'' = ''necrose_severe''
   \<and> normalize_term translit_fr ''Necrose severe'' \<notin> set SATELLITES_symptomes
   \<and> SATELLITES_symptomes = [''chlorose''] @ ''necrose'' # tl (tl SATELLITES_symptomes)
   \<and> contains ''necrose_severe'' ''necrose''
   \<and> \<not> contains ''necrose_severe'' ''chlorose''
   \<and> \<not> contains ''chlorose'' ''necrose_severe''
   \<and> validate_term translit_fr no_close_matches ''Necrose severe'' SATELLITES_symptomes
       default_cutoff = Some ''necrose''
   \<and> validate_term translit_fr no_close_matches ''necrose_severe''
       ([''chlorose''] @ ''necrose'' # [''rose'']) default_cutoff = Some ''necrose''
   \<and> validate_term translit_fr no_close_matches '''' SATELLITES_symptomes default_cutoff = None"
proof -
  have n: "normalize_term translit_fr ''Necrose severe'' = ''necrose_severe''"
    by (simp add: str_eval)
  have m: "''necrose_severe'' \<notin> set SATELLITES_symptomes"
    by (simp add: SATELLITES_symptomes_def)
  have d: "SATELLITES_symptomes = [''chlorose''] @ ''necrose'' # tl (tl SATELLITES_symptomes)"
    by (simp add: SATELLITES_symptomes_def)
  have c1: "contains ''necrose_severe'' ''necrose''"
    by simp
  have c2: "\<not> contains ''necrose_severe'' ''chlorose''" "\<not> contains ''chlorose'' ''necrose_severe''"
    by simp_all
  have m2: "''necrose_severe'' \<notin> set ([''chlorose''] @ ''necrose'' # [''rose''])"
    by simp
  note inst = validate_term_order
      [where v = "''Necrose severe''" and tbl = translit_fr and terms = SATELLITES_symptomes
         and pre = "[''chlorose'']" and t = "''necrose''"
         and post = "tl (tl SATELLITES_symptomes)" and gcm = no_close_matches
         and cutoff = default_cutoff
         and category = "[''chlorose''] @ ''necrose'' # [''rose'']"
         and cat_pre = "[''chlorose'']" and cat_post = "[''rose'']"]
  have r1: "validate_term translit_fr no_close_matches ''Necrose severe'' SATELLITES_symptomes
          default_cutoff = Some ''necrose''"
    using inst n m d c1 c2 by simp
  have r2: "validate_term translit_fr no_close_matches ''necrose_severe''
       ([''chlorose''] @ ''necrose'' # [''rose'']) default_cutoff = Some ''necrose''"
    using inst m2 c2 by simp
  have r3: "validate_term translit_fr no_close_matches '''' SATELLITES_symptomes default_cutoff
              = None"
    using inst by blast
  show ?thesis using n m d c1 c2 r1 r2 r3 by simp
qed

text \<open>
  C7, as the specification words it, fails: \<open>validate_term\<close> does not read the alias
  table. Against the category of the plants it returns \<open>mais\<close>, which is an entry of
  that category, and not \<open>corn\<close>.
\<close>

theorem validate_term_mais_not_corn:
  "validate_term translit_fr no_close_matches ''mais'' HUBS_plantes default_cutoff = Some ''mais''
   \<and> validate_term translit_fr no_close_matches [CHR ''m'', CHR ''a'', CHR 0xEF, CHR ''s'']
       HUBS_plantes default_cutoff = Some ''mais''
   \<and> Some ''mais'' \<noteq> Some ''corn''"
  by (simp add: validate_term_def HUBS_plantes_def translit_fr_def str_eval)

text \<open>
  C7, amended: it is \<open>identify_plant\<close> that reads the alias table. It resolves \<open>mais\<close>
  to \<open>corn\<close>, and the same word written with i diaeresis (which \<open>unidecode\<close>
  transliterates to \<open>i\<close>) to \<open>corn\<close> as well; \<open>validate_term\<close> against the category
  of the plants returns \<open>mais\<close> for both.
\<close>

theorem identify_plant_alias:
  "identify_plant tbl gcm ''mais'' = Some ''corn''
   \<and> validate_term tbl gcm ''mais'' HUBS_plantes cutoff = Some ''mais''
   \<and> (tbl (CHR 0xEF) = ''i''
        \<longrightarrow> identify_plant tbl gcm [CHR ''m'', CHR ''a'', CHR 0xEF, CHR ''s''] = Some ''corn''
          \<and> validate_term tbl gcm [CHR ''m'', CHR ''a'', CHR 0xEF, CHR ''s''] HUBS_plantes cutoff
              = Some ''mais'')"
  by (simp add: identify_plant_def validate_term_def PLANT_ALIASES_def HUBS_plantes_def str_eval)

theorem identify_plant_alias_witness:
  "translit_fr (CHR 0xEF) = ''i''
   \<and> identify_plant translit_fr no_close_matches [CHR ''m'', CHR ''a'', CHR 0xEF, CHR ''s'']
       = Some ''corn''
   \<and> identify_plant translit_fr no_close_matches ''mais'' = Some ''corn''"
proof -
  have t: "translit_fr (CHR 0xEF) = ''i''"
    by (simp add: translit_fr_def)
  from identify_plant_alias [where tbl = translit_fr and gcm = no_close_matches
      and cutoff = default_cutoff] t
  show ?thesis by simp
qed

section \<open>The similarity calculator\<close>

lemma np_norm_zeros: "np_norm (replicate n 0) = 0"
  by (simp add: np_norm_def map_replicate_const sum_list_replicate)

lemma cosine_similarity_zeros_left:
  "length v = n \<Longrightarrow> cosine_similarity (replicate n 0) v = Inr 0"
  by (simp add: cosine_similarity_def np_dot_def np_norm_zeros)

lemma cosine_similarity_zeros_right:
  "length v = n \<Longrightarrow> cosine_similarity v (replicate n 0) = Inr 0"
  by (simp add: cosine_similarity_def np_dot_def np_norm_zeros)

text \<open>
  Two vectors of different lengths make \<open>numpy.dot\<close> raise, before any norm is looked
  at: the vector of a failed fetch has 384 components whatever the model's dimension is.
\<close>

lemma cosine_similarity_length_mismatch:
  "length v1 \<noteq> length v2 \<Longrightarrow> cosine_similarity v1 v2 = Inl ValueError"
  by (simp add: cosine_similarity_def np_dot_def)


text \<open>
  The score function \<open>offline_score\<close> is what \<open>calculate_similarity\<close> returns under the
  semantic strategy while every fetch fails.
\<close>

lemma calculate_similarity_offline:
  "fst (calculate_similarity offline_calculator Map.empty a b) = Inr (offline_score a b)"
proof -
  have g: "\<And>s. get_embedding offline_calculator Map.empty s = (replicate 384 0, Map.empty)"
    by (simp add: get_embedding_def offline_calculator_def)
  have c: "cosine_similarity (replicate 384 0) (replicate 384 0) = Inr 0"
    by (simp add: cosine_similarity_zeros_left)
  have s: "fst (semantic_similarity offline_calculator Map.empty a b)
            = Inr (if a = [] \<or> b = [] then 0 else 1 / 2)"
    using g c by (simp add: semantic_similarity_def)
  have alg: "algorithm offline_calculator = ''semantic''"
    and tr: "translit offline_calculator = translit_fr"
    by (simp_all add: offline_calculator_def)
  show ?thesis
    unfolding calculate_similarity_def Let_def alg tr offline_score_def
    using s by simp
qed




text \<open>
  The loop of \<open>find_best_match\<close>, from any starting pair: when some term of the list
  scores above the best score so far and reaches the threshold, the loop ends on the
  first term of the highest such score; otherwise it ends as it started.
\<close>

lemma best_match_loop_result:
  "best_match_loop sim t th bt bs xs = (r, sc) \<Longrightarrow>
     (if \<exists>x\<in>set xs. sim t x > bs \<and> sim t x \<ge> th
      then \<exists>pre c post. xs = pre @ c # post \<and> r = Some c \<and> sc = sim t c
             \<and> sim t c > bs \<and> sim t c \<ge> th
             \<and> (\<forall>x\<in>set pre. sim t x < sim t c) \<and> (\<forall>x\<in>set post. sim t x \<le> sim t c)
      else r = bt \<and> sc = bs)"
proof (induction xs arbitrary: bt bs)
  case Nil
  then show ?case by simp
next
  case (Cons y ys)
  show ?case
  proof (cases "sim t y > bs \<and> sim t y \<ge> th")
    case True
    with Cons.prems have run: "best_match_loop sim t th (Some y) (sim t y) ys = (r, sc)"
      by (simp add: Let_def)
    note ih = Cons.IH [OF run]
    show ?thesis
    proof (cases "\<exists>x\<in>set ys. sim t x > sim t y \<and> sim t x \<ge> th")
      case better: True
      with ih obtain pre c post where
        p: "ys = pre @ c # post" "r = Some c" "sc = sim t c" "sim t c > sim t y"
           "sim t c \<ge> th" "\<forall>x\<in>set pre. sim t x < sim t c"
           "\<forall>x\<in>set post. sim t x \<le> sim t c"
        by auto
      have "y # ys = (y # pre) @ c # post" using p(1) by simp
      moreover have "\<forall>x\<in>set (y # pre). sim t x < sim t c" using p(4,6) by simp
      moreover have "sim t c > bs" using True p(4) by linarith
      ultimately have "\<exists>pre c post. y # ys = pre @ c # post \<and> r = Some c \<and> sc = sim t c
             \<and> sim t c > bs \<and> sim t c \<ge> th
             \<and> (\<forall>x\<in>set pre. sim t x < sim t c) \<and> (\<forall>x\<in>set post. sim t x \<le> sim t c)"
        using p(2,3,5,7) by blast
      moreover have "\<exists>x\<in>set (y # ys). sim t x > bs \<and> sim t x \<ge> th" using True by auto
      ultimately show ?thesis by (simp only: if_True)
    next
      case nobetter: False
      with ih have rs: "r = Some y" "sc = sim t y" by auto
      have le: "\<forall>x\<in>set ys. sim t x \<le> sim t y"
      proof
        fix x assume "x \<in> set ys"
        with nobetter have "\<not> (sim t x > sim t y \<and> sim t x \<ge> th)" by blast
        with True show "sim t x \<le> sim t y" by linarith
      qed
      have "y # ys = [] @ y # ys" by simp
      then have "\<exists>pre c post. y # ys = pre @ c # post \<and> r = Some c \<and> sc = sim t c
             \<and> sim t c > bs \<and> sim t c \<ge> th
             \<and> (\<forall>x\<in>set pre. sim t x < sim t c) \<and> (\<forall>x\<in>set post. sim t x \<le> sim t c)"
        using rs le True by (metis empty_iff empty_set)
      moreover have "\<exists>x\<in>set (y # ys). sim t x > bs \<and> sim t x \<ge> th" using True by auto
      ultimately show ?thesis by (simp only: if_True)
    qed
  next
    case False
    with Cons.prems have run: "best_match_loop sim t th bt bs ys = (r, sc)"
      by (auto simp add: Let_def)
    note ih = Cons.IH [OF run]
    show ?thesis
    proof (cases "\<exists>x\<in>set ys. sim t x > bs \<and> sim t x \<ge> th")
      case better: True
      with ih obtain pre c post where
        p: "ys = pre @ c # post" "r = Some c" "sc = sim t c" "sim t c > bs"
           "sim t c \<ge> th" "\<forall>x\<in>set pre. sim t x < sim t c"
           "\<forall>x\<in>set post. sim t x \<le> sim t c"
        by auto
      have "sim t y < sim t c" using False p(4,5) by linarith
      then have "\<forall>x\<in>set (y # pre). sim t x < sim t c" using p(6) by simp
      moreover have "y # ys = (y # pre) @ c # post" using p(1) by simp
      ultimately have "\<exists>pre c post. y # ys = pre @ c # post \<and> r = Some c \<and> sc = sim t c
             \<and> sim t c > bs \<and> sim t c \<ge> th
             \<and> (\<forall>x\<in>set pre. sim t x < sim t c) \<and> (\<forall>x\<in>set post. sim t x \<le> sim t c)"
        using p(2,3,4,5,7) by blast
      moreover have "\<exists>x\<in>set (y # ys). sim t x > bs \<and> sim t x \<ge> th" using better by auto
      ultimately show ?thesis by (simp only: if_True)
    next
      case nobetter: False
      with ih have "r = bt \<and> sc = bs" by auto
      moreover have "\<not> (\<exists>x\<in>set (y # ys). sim t x > bs \<and> sim t x \<ge> th)"
        using False nobetter by auto
      ultimately show ?thesis by (simp only: if_False)
    qed
  qed
qed

text \<open>
  C5, as the specification words it, fails: a candidate of score 0 meets the threshold
  0 (the default), and \<open>find_best_match\<close> still returns \<open>(None, 0.0)\<close>, because the scan
  starts from the best score 0 and takes a candidate only on a strictly greater score.
  Every strategy scores 0 against the empty string.
\<close>

theorem find_best_match_zero_score:
  "find_best_match offline_score ''abc'' [''''] 0 = (None, 0)
   \<and> offline_score ''abc'' '''' \<ge> 0"
  by code_simp

text \<open>
  C5, amended: \<open>find_best_match\<close> scans the candidates in order with a strictly greater
  comparison. When some candidate has a score that is positive and reaches the
  threshold, it returns the first candidate of the highest score (every candidate before
  it scores strictly less, none after it scores more) together with that score;
  otherwise it returns \<open>(None, 0.0)\<close>.
\<close>

theorem find_best_match_first_highest:
  "(if \<exists>x\<in>set cands. sim t x > 0 \<and> sim t x \<ge> th
    then \<exists>pre c post. cands = pre @ c # post
           \<and> find_best_match sim t cands th = (Some c, sim t c)
           \<and> (\<forall>x\<in>set pre. sim t x < sim t c) \<and> (\<forall>x\<in>set post. sim t x \<le> sim t c)
    else find_best_match sim t cands th = (None, 0))"
proof (cases "cands = []")
  case True
  then show ?thesis by (simp add: find_best_match_def)
next
  case False
  obtain r sc where run: "best_match_loop sim t th None 0 cands = (r, sc)"
    by (cases "best_match_loop sim t th None 0 cands") auto
  then have fb: "find_best_match sim t cands th = (r, sc)"
    using False by (simp add: find_best_match_def)
  from best_match_loop_result [OF run] show ?thesis
    unfolding fb by (auto split: if_splits)
qed

theorem find_best_match_first_highest_witness:
  "(\<exists>x\<in>set [''tomate'', ''mais'', ''ma-is'']. offline_score ''mais'' x > 0
      \<and> offline_score ''mais'' x \<ge> 75 / 100)
   \<and> (\<exists>pre c post. [''tomate'', ''mais'', ''ma-is''] = pre @ c # post
         \<and> find_best_match offline_score ''mais'' [''tomate'', ''mais'', ''ma-is''] (75 / 100)
             = (Some c, offline_score ''mais'' c)
         \<and> (\<forall>x\<in>set pre. offline_score ''mais'' x < offline_score ''mais'' c)
         \<and> (\<forall>x\<in>set post. offline_score ''mais'' x \<le> offline_score ''mais'' c))"
proof -
  have s: "offline_score ''mais'' ''mais'' = 1"
    by (simp add: offline_score_def)
  then have h: "\<exists>x\<in>set [''tomate'', ''mais'', ''ma-is'']. offline_score ''mais'' x > 0
      \<and> offline_score ''mais'' x \<ge> 75 / 100"
    by simp
  from find_best_match_first_highest
    [where cands = "[''tomate'', ''mais'', ''ma-is'']" and sim = offline_score
       and t = "''mais''" and th = "75 / 100"]
    h
  show ?thesis by (simp only: if_True simp_thms)
qed

section \<open>The generator: validate-schema and merge-schemas\<close>

lemmas schema_eval =
  generate_schema_def Hub_def Link_def Satellite_def generate_hub_key_def
  generate_link_key_def generate_satellite_key_def generate_hash_diff_def env0_def

lemma check_key_uniqueness_frame: "snd (check_key_uniqueness s) = s"
  by (simp add: check_key_uniqueness_def Let_def)

lemma check_referential_integrity_frame: "snd (check_referential_integrity s) = s"
  by (simp add: check_referential_integrity_def Let_def)

lemma check_confidence_scores_frame: "snd (check_confidence_scores e s) = s"
  by (simp add: check_confidence_scores_def)

lemma check_structural_constraints_frame: "snd (check_structural_constraints s) = s"
  by (simp add: check_structural_constraints_def Let_def)

lemma validate_schema_errors:
  "fst (validate_schema e s) =
     fst (check_key_uniqueness s) @ fst (check_referential_integrity s)
     @ fst (check_confidence_scores e s) @ fst (check_structural_constraints s)"
proof -
  obtain e1 s1 where c1: "check_key_uniqueness s = (e1, s1)"
    by (cases "check_key_uniqueness s") auto
  then have s1: "s1 = s" using check_key_uniqueness_frame [of s] by simp
  obtain e2 s2 where c2: "check_referential_integrity s = (e2, s2)"
    by (cases "check_referential_integrity s") auto
  then have s2: "s2 = s" using check_referential_integrity_frame [of s] by simp
  obtain e3 s3 where c3: "check_confidence_scores e s = (e3, s3)"
    by (cases "check_confidence_scores e s") auto
  then have s3: "s3 = s" using check_confidence_scores_frame [of e s] by simp
  obtain e4 s4 where c4: "check_structural_constraints s = (e4, s4)"
    by (cases "check_structural_constraints s") auto
  show ?thesis
    unfolding validate_schema_def using c1 c2 c3 c4 s1 s2 s3 by simp
qed

lemma is_warning_link_target:
  "is_warning (''WARNING: Link '' @ k @ ''... '' @ reference @ '' un Hub target invalide'')"
  by (simp add: is_warning_def)

lemma link_integrity_target:
  "hub_target_key l \<notin> keys \<Longrightarrow>
     ''WARNING: Link '' @ take 8 (link_key l) @ ''... '' @ reference
       @ '' un Hub target invalide'' \<in> set (link_integrity keys l)"
  by (simp add: link_integrity_def)

text \<open>
  C9: for every schema with a link whose target key is the key of none of its hubs,
  \<open>validate_schema\<close> returns a list of diagnostics that holds a warning (the one of the
  referential check for that link). The model of \<open>validate_schema\<close> has no branch that
  raises, as the source has none. The schema is exported all the same: \<open>to_dict\<close> gives
  the dictionary with every hub, link and satellite, the dangling link among them; and
  \<open>generate_schema\<close> builds a schema from such lists without any check.
\<close>

theorem validate_schema_dangling_target:
  "l \<in> set (links s) \<Longrightarrow> hub_target_key l \<notin> hub.hub_key ` set (hubs s) \<Longrightarrow>
     (\<exists>d\<in>set (fst (validate_schema e s)). is_warning d)
     \<and> ''WARNING: Link '' @ take 8 (link_key l) @ ''... '' @ reference
         @ '' un Hub target invalide'' \<in> set (fst (validate_schema e s))
     \<and> (\<exists>ds. to_dict e s =
           PDict [(''metadata'', PDict (metadata s)),
                  (''hubs'', PList (map (hub_to_dict e) (hubs s))),
                  (''links'', PList ds),
                  (''satellites'', PList (map (satellite_to_dict e) (satellites s)))]
           \<and> length ds = length (links s) \<and> link_to_dict e l \<in> set ds)
     \<and> links (generate_schema e t (hubs s) (links s) (satellites s) src lemmas) = links s
     \<and> hubs (generate_schema e t (hubs s) (links s) (satellites s) src lemmas) = hubs s"
proof -
  assume l: "l \<in> set (links s)" and k: "hub_target_key l \<notin> hub.hub_key ` set (hubs s)"
  let ?d = "''WARNING: Link '' @ take 8 (link_key l) @ ''... '' @ reference
         @ '' un Hub target invalide''"
  have "?d \<in> set (link_integrity (set (map hub.hub_key (hubs s))) l)"
    using k link_integrity_target [of l "set (map hub.hub_key (hubs s))"] by simp
  then have "?d \<in> set (fst (check_referential_integrity s))"
    using l by (auto simp add: check_referential_integrity_def Let_def)
  then have d: "?d \<in> set (fst (validate_schema e s))"
    by (simp add: validate_schema_errors)
  have w: "is_warning ?d"
    by (rule is_warning_link_target)
  have x: "\<exists>ds. to_dict e s =
           PDict [(''metadata'', PDict (metadata s)),
                  (''hubs'', PList (map (hub_to_dict e) (hubs s))),
                  (''links'', PList ds),
                  (''satellites'', PList (map (satellite_to_dict e) (satellites s)))]
           \<and> length ds = length (links s) \<and> link_to_dict e l \<in> set ds"
    using l by (simp add: to_dict_def)
  show ?thesis
    using d w x by (auto simp add: generate_schema_def)
qed

theorem validate_schema_dangling_target_witness:
  "dangling_link \<in> set (links dangling_schema)
   \<and> hub_target_key dangling_link \<notin> hub.hub_key ` set (hubs dangling_schema)
   \<and> ''WARNING: Link corn_pla... '' @ reference @ '' un Hub target invalide''
       \<in> set (fst (validate_schema env0 dangling_schema))
   \<and> (\<exists>d\<in>set (fst (validate_schema env0 dangling_schema)). is_warning d)"
proof -
  have a: "dangling_link \<in> set (links dangling_schema)"
    by (simp add: dangling_schema_def generate_schema_def)
  have b: "hub_target_key dangling_link \<notin> hub.hub_key ` set (hubs dangling_schema)"
    by (simp add: dangling_schema_def dangling_link_def schema_eval)
  have c: "take 8 (link_key dangling_link) = ''corn_pla''"
    by (simp add: dangling_link_def schema_eval)
  from validate_schema_dangling_target [OF a b, of env0] c
  show ?thesis using a b by simp
qed

text \<open>
  C10: \<open>validate_schema\<close> is read-only. The schema that comes out of the four checks is
  the schema that went in: the same hubs, links, satellites and metadata, every field of
  every record included.
\<close>

theorem validate_schema_read_only:
  "snd (validate_schema e s) = s
   \<and> hubs (snd (validate_schema e s)) = hubs s
   \<and> links (snd (validate_schema e s)) = links s
   \<and> satellites (snd (validate_schema e s)) = satellites s
   \<and> metadata (snd (validate_schema e s)) = metadata s"
proof -
  obtain e1 s1 where c1: "check_key_uniqueness s = (e1, s1)"
    by (cases "check_key_uniqueness s") auto
  then have s1: "s1 = s" using check_key_uniqueness_frame [of s] by simp
  obtain e2 s2 where c2: "check_referential_integrity s = (e2, s2)"
    by (cases "check_referential_integrity s") auto
  then have s2: "s2 = s" using check_referential_integrity_frame [of s] by simp
  obtain e3 s3 where c3: "check_confidence_scores e s = (e3, s3)"
    by (cases "check_confidence_scores e s") auto
  then have s3: "s3 = s" using check_confidence_scores_frame [of e s] by simp
  obtain e4 s4 where c4: "check_structural_constraints s = (e4, s4)"
    by (cases "check_structural_constraints s") auto
  then have s4: "s4 = s" using check_structural_constraints_frame [of s] by simp
  have "snd (validate_schema e s) = s"
    unfolding validate_schema_def using c1 c2 c3 c4 s1 s2 s3 s4 by simp
  then show ?thesis by simp
qed

theorem validate_schema_read_only_witness:
  "snd (validate_schema env0 dangling_schema) = dangling_schema
   \<and> fst (validate_schema env0 dangling_schema) \<noteq> []"
proof -
  have "dangling_link \<in> set (links dangling_schema)"
    by (simp add: dangling_schema_def generate_schema_def)
  then have "fst (check_referential_integrity dangling_schema) \<noteq> []"
    by (auto simp add: check_referential_integrity_def link_integrity_def Let_def
          dangling_schema_def dangling_link_def schema_eval)
  then have "fst (validate_schema env0 dangling_schema) \<noteq> []"
    by (simp add: validate_schema_errors)
  then show ?thesis
    using validate_schema_read_only [of env0 dangling_schema] by simp
qed

subsection \<open>merge-schemas\<close>

lemma merge_link_hub_part:
  "merged_hubs (foldl merge_link st ls) = merged_hubs st
   \<and> seen_hub_keys (foldl merge_link st ls) = seen_hub_keys st
   \<and> merged_satellites (foldl merge_link st ls) = merged_satellites st"
  by (induction ls arbitrary: st) (simp_all add: merge_link_def)

lemma merge_satellite_other_parts:
  "merged_hubs (foldl merge_satellite st xs) = merged_hubs st
   \<and> seen_hub_keys (foldl merge_satellite st xs) = seen_hub_keys st
   \<and> merged_links (foldl merge_satellite st xs) = merged_links st
   \<and> seen_link_keys (foldl merge_satellite st xs) = seen_link_keys st"
  by (induction xs arbitrary: st) (simp_all add: merge_satellite_def)

lemma merge_hub_link_part:
  "merged_links (foldl merge_hub st hs) = merged_links st
   \<and> seen_link_keys (foldl merge_hub st hs) = seen_link_keys st
   \<and> merged_satellites (foldl merge_hub st hs) = merged_satellites st"
  by (induction hs arbitrary: st) (simp_all add: merge_hub_def)

lemma merge_satellite_all:
  "merged_satellites (foldl merge_satellite st xs) = merged_satellites st @ xs"
  by (induction xs arbitrary: st) (simp_all add: merge_satellite_def)

lemma merge_schema_satellites:
  "merged_satellites (merge_schema st s) = merged_satellites st @ satellites s"
  by (simp add: merge_schema_def merge_satellite_all merge_link_hub_part merge_hub_link_part)

lemma merge_schemas_satellites:
  "merged_satellites (foldl merge_schema st ss)
     = merged_satellites st @ concat (map satellites ss)"
  by (induction ss arbitrary: st) (simp_all add: merge_schema_satellites)

text \<open>The hubs of the state change with the hubs only, and so with the links.\<close>

lemma merge_hub_cong:
  "merged_hubs st = merged_hubs st' \<Longrightarrow> seen_hub_keys st = seen_hub_keys st' \<Longrightarrow>
     merged_hubs (foldl merge_hub st hs) = merged_hubs (foldl merge_hub st' hs)
     \<and> seen_hub_keys (foldl merge_hub st hs) = seen_hub_keys (foldl merge_hub st' hs)"
proof (induction hs arbitrary: st st')
  case Nil
  then show ?case by simp
next
  case (Cons h hs)
  have "merged_hubs (merge_hub st h) = merged_hubs (merge_hub st' h)"
    and "seen_hub_keys (merge_hub st h) = seen_hub_keys (merge_hub st' h)"
    using Cons.prems by (simp_all add: merge_hub_def)
  then show ?case using Cons.IH [of "merge_hub st h" "merge_hub st' h"] by simp
qed

lemma merge_link_cong:
  "merged_links st = merged_links st' \<Longrightarrow> seen_link_keys st = seen_link_keys st' \<Longrightarrow>
     merged_links (foldl merge_link st ls) = merged_links (foldl merge_link st' ls)
     \<and> seen_link_keys (foldl merge_link st ls) = seen_link_keys (foldl merge_link st' ls)"
proof (induction ls arbitrary: st st')
  case Nil
  then show ?case by simp
next
  case (Cons l ls)
  have "merged_links (merge_link st l) = merged_links (merge_link st' l)"
    and "seen_link_keys (merge_link st l) = seen_link_keys (merge_link st' l)"
    using Cons.prems by (simp_all add: merge_link_def)
  then show ?case using Cons.IH [of "merge_link st l" "merge_link st' l"] by simp
qed

lemma merge_schema_hub_part:
  "merged_hubs (merge_schema st s) = merged_hubs (foldl merge_hub st (hubs s))
   \<and> seen_hub_keys (merge_schema st s) = seen_hub_keys (foldl merge_hub st (hubs s))"
  by (simp add: merge_schema_def merge_satellite_other_parts merge_link_hub_part)

lemma merge_schema_link_part:
  "merged_links (merge_schema st s) = merged_links (foldl merge_link st (links s))
   \<and> seen_link_keys (merge_schema st s) = seen_link_keys (foldl merge_link st (links s))"
proof -
  have "merged_links (foldl merge_hub st (hubs s)) = merged_links st"
    and "seen_link_keys (foldl merge_hub st (hubs s)) = seen_link_keys st"
    by (simp_all add: merge_hub_link_part)
  then show ?thesis
    using merge_link_cong [of "foldl merge_hub st (hubs s)" st "links s"]
    by (simp add: merge_schema_def merge_satellite_other_parts)
qed

lemma merge_schemas_hub_part:
  "merged_hubs (foldl merge_schema st ss) = merged_hubs (foldl merge_hub st (concat (map hubs ss)))
   \<and> seen_hub_keys (foldl merge_schema st ss)
       = seen_hub_keys (foldl merge_hub st (concat (map hubs ss)))"
proof (induction ss arbitrary: st)
  case Nil
  then show ?case by simp
next
  case (Cons s ss)
  have "merged_hubs (foldl merge_hub (merge_schema st s) (concat (map hubs ss)))
          = merged_hubs (foldl merge_hub (foldl merge_hub st (hubs s)) (concat (map hubs ss)))
        \<and> seen_hub_keys (foldl merge_hub (merge_schema st s) (concat (map hubs ss)))
          = seen_hub_keys (foldl merge_hub (foldl merge_hub st (hubs s)) (concat (map hubs ss)))"
    using merge_schema_hub_part [of st s] by (intro merge_hub_cong) simp_all
  then show ?case using Cons.IH [of "merge_schema st s"] by simp
qed

lemma merge_schemas_link_part:
  "merged_links (foldl merge_schema st ss)
     = merged_links (foldl merge_link st (concat (map links ss)))
   \<and> seen_link_keys (foldl merge_schema st ss)
       = seen_link_keys (foldl merge_link st (concat (map links ss)))"
proof (induction ss arbitrary: st)
  case Nil
  then show ?case by simp
next
  case (Cons s ss)
  have "merged_links (foldl merge_link (merge_schema st s) (concat (map links ss)))
          = merged_links (foldl merge_link (foldl merge_link st (links s)) (concat (map links ss)))
        \<and> seen_link_keys (foldl merge_link (merge_schema st s) (concat (map links ss)))
          = seen_link_keys
              (foldl merge_link (foldl merge_link st (links s)) (concat (map links ss)))"
    using merge_schema_link_part [of st s] by (intro merge_link_cong) simp_all
  then show ?case using Cons.IH [of "merge_schema st s"] by simp
qed

text \<open>One hub more: the first of its key is kept, a later one is dropped.\<close>

lemma find_snoc:
  "find P (p @ [x]) = (case find P p of Some y \<Rightarrow> Some y | None \<Rightarrow> if P x then Some x else None)"
  by (induction p) auto

lemma find_key_none: "k \<notin> f ` set p \<Longrightarrow> find (\<lambda>x. f x = k) p = None"
  by (induction p) auto

lemma merge_hub_step:
  assumes "hubs_merged_from st p"
  shows "hubs_merged_from (merge_hub st h) (p @ [h])"
proof (cases "hub.hub_key h \<in> seen_hub_keys st")
  case True
  then have "merge_hub st h = st" by (simp add: merge_hub_def)
  moreover have "hub.hub_key ` set (p @ [h]) = hub.hub_key ` set p"
    using True assms by (auto simp add: hubs_merged_from_def)
  moreover have "\<forall>g\<in>set (merged_hubs st).
      find (\<lambda>h'. hub.hub_key h' = hub.hub_key g) (p @ [h]) = Some g"
    using assms by (simp add: hubs_merged_from_def find_snoc)
  ultimately show ?thesis using assms by (simp add: hubs_merged_from_def)
next
  case False
  then have m: "merged_hubs (merge_hub st h) = merged_hubs st @ [h]"
    and k: "seen_hub_keys (merge_hub st h) = insert (hub.hub_key h) (seen_hub_keys st)"
    by (simp_all add: merge_hub_def)
  have none: "find (\<lambda>h'. hub.hub_key h' = hub.hub_key h) p = None"
    using False assms by (simp add: hubs_merged_from_def find_key_none)
  have old: "\<forall>g\<in>set (merged_hubs st).
      find (\<lambda>h'. hub.hub_key h' = hub.hub_key g) (p @ [h]) = Some g"
    using assms by (simp add: hubs_merged_from_def find_snoc)
  have new: "find (\<lambda>h'. hub.hub_key h' = hub.hub_key h) (p @ [h]) = Some h"
    using none by (simp add: find_snoc)
  have d: "distinct (map hub.hub_key (merged_hubs st @ [h]))"
    using False assms by (auto simp add: hubs_merged_from_def)
  have i: "hub.hub_key ` set (merged_hubs st @ [h]) = insert (hub.hub_key h) (seen_hub_keys st)"
    using assms by (auto simp add: hubs_merged_from_def)
  have s: "insert (hub.hub_key h) (seen_hub_keys st) = hub.hub_key ` set (p @ [h])"
    using assms by (auto simp add: hubs_merged_from_def)
  show ?thesis
    unfolding hubs_merged_from_def m k using d i s old new by auto
qed

lemma merge_hubs_fold:
  "hubs_merged_from st p \<Longrightarrow> hubs_merged_from (foldl merge_hub st hs) (p @ hs)"
proof (induction hs arbitrary: st p)
  case Nil
  then show ?case by simp
next
  case (Cons h hs)
  from Cons.IH [OF merge_hub_step [OF Cons.prems, of h]] show ?case by simp
qed

lemma merge_link_step:
  assumes "links_merged_from st p"
  shows "links_merged_from (merge_link st l) (p @ [l])"
proof (cases "link_key l \<in> seen_link_keys st")
  case True
  then have "merge_link st l = st" by (simp add: merge_link_def)
  moreover have "link_key ` set (p @ [l]) = link_key ` set p"
    using True assms by (auto simp add: links_merged_from_def)
  moreover have "\<forall>g\<in>set (merged_links st).
      find (\<lambda>l'. link_key l' = link_key g) (p @ [l]) = Some g"
    using assms by (simp add: links_merged_from_def find_snoc)
  ultimately show ?thesis using assms by (simp add: links_merged_from_def)
next
  case False
  then have m: "merged_links (merge_link st l) = merged_links st @ [l]"
    and k: "seen_link_keys (merge_link st l) = insert (link_key l) (seen_link_keys st)"
    by (simp_all add: merge_link_def)
  have none: "find (\<lambda>l'. link_key l' = link_key l) p = None"
    using False assms by (simp add: links_merged_from_def find_key_none)
  have old: "\<forall>g\<in>set (merged_links st).
      find (\<lambda>l'. link_key l' = link_key g) (p @ [l]) = Some g"
    using assms by (simp add: links_merged_from_def find_snoc)
  have new: "find (\<lambda>l'. link_key l' = link_key l) (p @ [l]) = Some l"
    using none by (simp add: find_snoc)
  have d: "distinct (map link_key (merged_links st @ [l]))"
    using False assms by (auto simp add: links_merged_from_def)
  have i: "link_key ` set (merged_links st @ [l]) = insert (link_key l) (seen_link_keys st)"
    using assms by (auto simp add: links_merged_from_def)
  have s: "insert (link_key l) (seen_link_keys st) = link_key ` set (p @ [l])"
    using assms by (auto simp add: links_merged_from_def)
  show ?thesis
    unfolding links_merged_from_def m k using d i s old new by auto
qed

lemma merge_links_fold:
  "links_merged_from st p \<Longrightarrow> links_merged_from (foldl merge_link st ls) (p @ ls)"
proof (induction ls arbitrary: st p)
  case Nil
  then show ?case by simp
next
  case (Cons l ls)
  from Cons.IH [OF merge_link_step [OF Cons.prems, of l]] show ?case by simp
qed

lemma one_of_key:
  "distinct (map f xs) \<Longrightarrow> k \<in> f ` set xs \<Longrightarrow> length (filter (\<lambda>x. f x = k) xs) = 1"
proof (induction xs)
  case Nil
  then show ?case by simp
next
  case (Cons x xs)
  show ?case
  proof (cases "f x = k")
    case True
    then have "k \<notin> f ` set xs" using Cons.prems by auto
    then have "filter (\<lambda>x. f x = k) xs = []" by (auto simp add: filter_empty_conv)
    then show ?thesis using True by simp
  next
    case False
    then show ?thesis using Cons by auto
  qed
qed

lemma merge_schemas_hubs:
  "hubs_merged_from (foldl merge_schema initial_merge_state ss) (concat (map hubs ss))"
proof -
  have "hubs_merged_from initial_merge_state []"
    by (simp add: hubs_merged_from_def initial_merge_state_def)
  from merge_hubs_fold [OF this, of "concat (map hubs ss)"]
  show ?thesis
    using merge_schemas_hub_part [of initial_merge_state ss]
    by (simp add: hubs_merged_from_def)
qed

lemma merge_schemas_links:
  "links_merged_from (foldl merge_schema initial_merge_state ss) (concat (map links ss))"
proof -
  have "links_merged_from initial_merge_state []"
    by (simp add: links_merged_from_def initial_merge_state_def)
  from merge_links_fold [OF this, of "concat (map links ss)"]
  show ?thesis
    using merge_schemas_link_part [of initial_merge_state ss]
    by (simp add: links_merged_from_def)
qed

text \<open>
  C8: \<open>merge_schemas\<close> removes the duplicates of hubs and of links by key, across the
  schemas, and the first hub (link) of a key, in the order of the schemas and of their
  lists, is the one kept; every key of the input is there exactly once. The satellites
  are concatenated, none removed. Two schemas that each hold a hub of the plant corn built
  by the constructor (whose key is the hash of the business key and the entity type)
  merge into a schema with exactly one hub of that key and the satellites of both.
\<close>

theorem merge_schemas_dedup:
  "distinct (map hub.hub_key (hubs (merge_schemas e t ss)))
   \<and> distinct (map link_key (links (merge_schemas e t ss)))
   \<and> hub.hub_key ` set (hubs (merge_schemas e t ss)) = hub.hub_key ` set (concat (map hubs ss))
   \<and> link_key ` set (links (merge_schemas e t ss)) = link_key ` set (concat (map links ss))
   \<and> (\<forall>h\<in>set (hubs (merge_schemas e t ss)).
         find (\<lambda>h'. hub.hub_key h' = hub.hub_key h) (concat (map hubs ss)) = Some h)
   \<and> (\<forall>l\<in>set (links (merge_schemas e t ss)).
         find (\<lambda>l'. link_key l' = link_key l) (concat (map links ss)) = Some l)
   \<and> (\<forall>h\<in>set (concat (map hubs ss)).
         length (filter (\<lambda>h'. hub.hub_key h' = hub.hub_key h) (hubs (merge_schemas e t ss))) = 1)
   \<and> satellites (merge_schemas e t ss) = concat (map satellites ss)
   \<and> hub.hub_key (Hub e t1 bk et src1 uri1 c1) = hub.hub_key (Hub e t2 bk et src2 uri2 c2)"
proof -
  let ?st = "foldl merge_schema initial_merge_state ss"
  have h: "hubs (merge_schemas e t ss) = merged_hubs ?st"
    and l: "links (merge_schemas e t ss) = merged_links ?st"
    and s: "satellites (merge_schemas e t ss) = merged_satellites ?st"
    by (simp_all add: merge_schemas_def Let_def)
  have hm: "hubs_merged_from ?st (concat (map hubs ss))"
    by (rule merge_schemas_hubs)
  have lm: "links_merged_from ?st (concat (map links ss))"
    by (rule merge_schemas_links)
  have d: "distinct (map hub.hub_key (merged_hubs ?st))"
    and i: "hub.hub_key ` set (merged_hubs ?st) = hub.hub_key ` set (concat (map hubs ss))"
    and f: "\<forall>h\<in>set (merged_hubs ?st).
         find (\<lambda>h'. hub.hub_key h' = hub.hub_key h) (concat (map hubs ss)) = Some h"
    using hm unfolding hubs_merged_from_def by simp_all
  have dl: "distinct (map link_key (merged_links ?st))"
    and il: "link_key ` set (merged_links ?st) = link_key ` set (concat (map links ss))"
    and fl: "\<forall>l\<in>set (merged_links ?st).
         find (\<lambda>l'. link_key l' = link_key l) (concat (map links ss)) = Some l"
    using lm unfolding links_merged_from_def by simp_all
  have one: "\<forall>h\<in>set (concat (map hubs ss)).
         length (filter (\<lambda>h'. hub.hub_key h' = hub.hub_key h) (merged_hubs ?st)) = 1"
  proof
    fix g assume "g \<in> set (concat (map hubs ss))"
    then have "hub.hub_key g \<in> hub.hub_key ` set (merged_hubs ?st)"
      unfolding i by (rule imageI)
    with d show "length (filter (\<lambda>h'. hub.hub_key h' = hub.hub_key g) (merged_hubs ?st)) = 1"
      by (rule one_of_key)
  qed
  have sat: "merged_satellites ?st = concat (map satellites ss)"
    using merge_schemas_satellites [of initial_merge_state ss]
    by (simp add: initial_merge_state_def)
  have key: "hub.hub_key (Hub e t1 bk et src1 uri1 c1) = hub.hub_key (Hub e t2 bk et src2 uri2 c2)"
    by (simp add: Hub_def)
  show ?thesis
    unfolding h l s using d dl i il f fl one sat key by blast
qed

theorem merge_schemas_dedup_witness:
  "hubs schema_a = [Hub env0 0 ''corn'' ''plante'' ''img1.jpg'' corn_uri 1]
   \<and> hubs schema_b = [Hub env0 3 ''corn'' ''plante'' ''img2.jpg'' corn_uri 1]
   \<and> length (filter (\<lambda>h'. hub.hub_key h' = generate_hub_key env0 ''corn'' ''plante'')
               (hubs (merge_schemas env0 6 [schema_a, schema_b]))) = 1
   \<and> find (\<lambda>h'. hub.hub_key h' = generate_hub_key env0 ''corn'' ''plante'')
        (hubs (merge_schemas env0 6 [schema_a, schema_b]))
       = Some (Hub env0 0 ''corn'' ''plante'' ''img1.jpg'' corn_uri 1)
   \<and> map attribute_value (satellites (merge_schemas env0 6 [schema_a, schema_b]))
       = [''vert'', ''jaune'']"
proof -
  have a: "hubs schema_a = [Hub env0 0 ''corn'' ''plante'' ''img1.jpg'' corn_uri 1]"
    and b: "hubs schema_b = [Hub env0 3 ''corn'' ''plante'' ''img2.jpg'' corn_uri 1]"
    by (simp_all add: schema_a_def schema_b_def generate_schema_def)
  have k: "hub.hub_key (Hub env0 0 ''corn'' ''plante'' ''img1.jpg'' corn_uri 1)
             = generate_hub_key env0 ''corn'' ''plante''"
    by (simp add: Hub_def)
  have sa: "map attribute_value (satellites schema_a) = [''vert'']"
    and sb: "map attribute_value (satellites schema_b) = [''jaune'']"
    by (simp_all add: schema_a_def schema_b_def generate_schema_def Satellite_def)
  have m: "hubs (merge_schemas env0 6 [schema_a, schema_b])
             = [Hub env0 0 ''corn'' ''plante'' ''img1.jpg'' corn_uri 1]"
    by (simp add: merge_schemas_def merge_schema_def merge_hub_def merge_link_def
          merge_satellite_def initial_merge_state_def schema_a_def schema_b_def
          generate_schema_def Hub_def generate_hub_key_def Let_def)
  from merge_schemas_dedup [where e = env0 and t = 6 and ss = "[schema_a, schema_b]"]
  have "length (filter (\<lambda>h'. hub.hub_key h'
                  = hub.hub_key (Hub env0 0 ''corn'' ''plante'' ''img1.jpg'' corn_uri 1))
               (hubs (merge_schemas env0 6 [schema_a, schema_b]))) = 1"
    and "satellites (merge_schemas env0 6 [schema_a, schema_b])
           = satellites schema_a @ satellites schema_b"
    using a by simp_all
  then show ?thesis using a b k sa sb m by simp
qed

section \<open>The matcher: classify-lemmas\<close>

lemma classify_lemma_cases:
  "classify_lemma m l = (''hub'', Some ''plante'')
   \<or> classify_lemma m l = (''hub'', Some ''maladie'')
   \<or> classify_lemma m l = (''hub'', Some ''ravageur'')
   \<or> classify_lemma m l = (''link'', Some ''relation'')
   \<or> (fst (classify_lemma m l) = ''satellite'' \<and> snd (classify_lemma m l) \<noteq> None)
   \<or> classify_lemma m l = (''unknown'', None)"
  by (simp add: classify_lemma_def Let_def)

lemma lemma_kinds_distinct:
  "is_plant_lemma m l \<Longrightarrow> \<not> is_problem_lemma m l \<and> \<not> is_relation_lemma m l"
  "is_problem_lemma m l \<Longrightarrow> \<not> is_plant_lemma m l \<and> \<not> is_relation_lemma m l"
  "is_relation_lemma m l \<Longrightarrow> \<not> is_plant_lemma m l \<and> \<not> is_problem_lemma m l"
  by (auto simp add: is_plant_lemma_def is_problem_lemma_def is_relation_lemma_def)

lemma problem_type_cases:
  "is_problem_lemma m l \<Longrightarrow>
     classify_lemma m l = (''hub'', Some (problem_type m l))
     \<and> (problem_type m l = ''maladie'' \<or> problem_type m l = ''ravageur'')"
  by (auto simp add: is_problem_lemma_def problem_type_def)

text \<open>The step of phase 1 on a plant, on a problem, on a relation, and on the rest.\<close>

lemma classify_step_plant:
  "is_plant_lemma m l \<Longrightarrow>
     classify_step m e src st l =
       st\<lparr>plante_hub := Some (Hub e (ticks st) (lower l) ''plante'' src (ontology_prefix @ l) 1),
          hubs_list := hubs_list st
            @ [Hub e (ticks st) (lower l) ''plante'' src (ontology_prefix @ l) 1],
          ticks := Suc (ticks st)\<rparr>"
  by (simp add: is_plant_lemma_def classify_step_def Let_def)

lemma classify_step_problem:
  "is_problem_lemma m l \<Longrightarrow>
     classify_step m e src st l =
       st\<lparr>probleme_hub :=
            Some (Hub e (ticks st) (lower l) (problem_type m l) src (ontology_prefix @ l) 1),
          hubs_list := hubs_list st
            @ [Hub e (ticks st) (lower l) (problem_type m l) src (ontology_prefix @ l) 1],
          ticks := Suc (ticks st)\<rparr>"
  by (auto simp add: is_problem_lemma_def problem_type_def classify_step_def Let_def)

lemma classify_step_relation:
  "is_relation_lemma m l \<Longrightarrow>
     classify_step m e src st l = st\<lparr>relation_lemma := Some (lower l)\<rparr>"
  by (simp add: is_relation_lemma_def classify_step_def Let_def)

lemma classify_unknown_lemma_slots:
  "plante_hub (classify_unknown_lemma m e src st l) = plante_hub st
   \<and> probleme_hub (classify_unknown_lemma m e src st l) = probleme_hub st
   \<and> relation_lemma (classify_unknown_lemma m e src st l) = relation_lemma st
   \<and> (\<exists>hs. hubs_list (classify_unknown_lemma m e src st l) = hubs_list st @ hs)"
  by (simp add: classify_unknown_lemma_def Let_def split: prod.splits)

lemma classify_step_other:
  assumes "\<not> is_plant_lemma m l" "\<not> is_problem_lemma m l" "\<not> is_relation_lemma m l"
  shows "plante_hub (classify_step m e src st l) = plante_hub st
         \<and> probleme_hub (classify_step m e src st l) = probleme_hub st
         \<and> relation_lemma (classify_step m e src st l) = relation_lemma st
         \<and> (\<exists>hs. hubs_list (classify_step m e src st l) = hubs_list st @ hs)"
proof -
  from classify_lemma_cases [of m l] assms
  consider (sat) "fst (classify_lemma m l) = ''satellite''"
    | (unk) "classify_lemma m l = (''unknown'', None)"
    by (auto simp add: is_plant_lemma_def is_problem_lemma_def is_relation_lemma_def)
  then show ?thesis
  proof cases
    case sat
    then show ?thesis
      by (cases "classify_lemma m l") (simp add: classify_step_def)
  next
    case unk
    then show ?thesis
      using classify_unknown_lemma_slots [of m e src st l]
      by (simp add: classify_step_def)
  qed
qed
lemma phase1_summary_initial: "phase1_summary m e [] (initial_state t0)"
  by (simp add: phase1_summary_def initial_state_def problem_lemmas_def relation_lemmas_def)

lemma phase1_summary_step:
  assumes s: "phase1_summary m e ls st"
  shows "phase1_summary m e (ls @ [l]) (classify_step m e src st l)"
proof -
  from s have
    pl: "plante_hub st \<noteq> None \<longleftrightarrow> (\<exists>l\<in>set ls. is_plant_lemma m l)" and
    plh: "\<forall>h. plante_hub st = Some h \<longrightarrow> h \<in> set (hubs_list st) \<and> entity_type h = ''plante''" and
    pr: "if problem_lemmas m ls = [] then probleme_hub st = None
         else \<exists>h. probleme_hub st = Some h \<and> h \<in> set (hubs_list st)
                \<and> business_key h = lower (last (problem_lemmas m ls))
                \<and> entity_type h = problem_type m (last (problem_lemmas m ls))
                \<and> hub.hub_key h
                    = generate_hub_key e (lower (last (problem_lemmas m ls)))
                        (problem_type m (last (problem_lemmas m ls)))" and
    rl: "relation_lemma st
         = (if relation_lemmas m ls = [] then None
            else Some (lower (last (relation_lemmas m ls))))" and
    cnt: "length (problem_lemmas m ls) \<le> length (filter is_problem_hub (hubs_list st))"
    unfolding phase1_summary_def by blast+
  consider (plant) "is_plant_lemma m l" | (problem) "is_problem_lemma m l"
    | (relation) "is_relation_lemma m l"
    | (other) "\<not> is_plant_lemma m l" "\<not> is_problem_lemma m l" "\<not> is_relation_lemma m l"
    by blast
  then show ?thesis
  proof cases
    case plant
    let ?h = "Hub e (ticks st) (lower l) ''plante'' src (ontology_prefix @ l) 1"
    let ?st = "classify_step m e src st l"
    have np: "\<not> is_problem_lemma m l" and nr: "\<not> is_relation_lemma m l"
      using lemma_kinds_distinct(1) [OF plant] by simp_all
    have st: "plante_hub ?st = Some ?h" "probleme_hub ?st = probleme_hub st"
      "relation_lemma ?st = relation_lemma st" "hubs_list ?st = hubs_list st @ [?h]"
      by (simp_all add: classify_step_plant [OF plant])
    have f: "problem_lemmas m (ls @ [l]) = problem_lemmas m ls"
      "relation_lemmas m (ls @ [l]) = relation_lemmas m ls"
      using np nr by (simp_all add: problem_lemmas_def relation_lemmas_def)
    have h: "entity_type ?h = ''plante''" "\<not> is_problem_hub ?h"
      by (simp_all add: Hub_def is_problem_hub_def)
    show ?thesis
      unfolding phase1_summary_def st f
      using plant pr rl cnt h by (auto split: if_splits)
  next
    case problem
    let ?h = "Hub e (ticks st) (lower l) (problem_type m l) src (ontology_prefix @ l) 1"
    let ?st = "classify_step m e src st l"
    have np: "\<not> is_plant_lemma m l" and nr: "\<not> is_relation_lemma m l"
      using lemma_kinds_distinct(2) [OF problem] by simp_all
    have st: "plante_hub ?st = plante_hub st" "probleme_hub ?st = Some ?h"
      "relation_lemma ?st = relation_lemma st" "hubs_list ?st = hubs_list st @ [?h]"
      by (simp_all add: classify_step_problem [OF problem])
    have f: "problem_lemmas m (ls @ [l]) = problem_lemmas m ls @ [l]"
      "relation_lemmas m (ls @ [l]) = relation_lemmas m ls"
      using problem nr by (simp_all add: problem_lemmas_def relation_lemmas_def)
    have h: "business_key ?h = lower l" "entity_type ?h = problem_type m l"
      "hub.hub_key ?h = generate_hub_key e (lower l) (problem_type m l)"
      by (simp_all add: Hub_def)
    have ph: "is_problem_hub ?h"
      using problem_type_cases [OF problem] by (simp add: is_problem_hub_def Hub_def)
    show ?thesis
      unfolding phase1_summary_def st f
      using np pl plh rl cnt h ph by auto
  next
    case relation
    let ?st = "classify_step m e src st l"
    have np: "\<not> is_plant_lemma m l" and nb: "\<not> is_problem_lemma m l"
      using lemma_kinds_distinct(3) [OF relation] by simp_all
    have st: "plante_hub ?st = plante_hub st" "probleme_hub ?st = probleme_hub st"
      "relation_lemma ?st = Some (lower l)" "hubs_list ?st = hubs_list st"
      by (simp_all add: classify_step_relation [OF relation])
    have f: "problem_lemmas m (ls @ [l]) = problem_lemmas m ls"
      "relation_lemmas m (ls @ [l]) = relation_lemmas m ls @ [l]"
      using relation nb by (simp_all add: problem_lemmas_def relation_lemmas_def)
    show ?thesis
      unfolding phase1_summary_def st f
      using np pl plh pr cnt by auto
  next
    case other
    let ?st = "classify_step m e src st l"
    from classify_step_other [OF other, of e src st] obtain hs where
      st: "plante_hub ?st = plante_hub st" "probleme_hub ?st = probleme_hub st"
      "relation_lemma ?st = relation_lemma st" "hubs_list ?st = hubs_list st @ hs"
      by blast
    have f: "problem_lemmas m (ls @ [l]) = problem_lemmas m ls"
      "relation_lemmas m (ls @ [l]) = relation_lemmas m ls"
      using other by (simp_all add: problem_lemmas_def relation_lemmas_def)
    show ?thesis
      unfolding phase1_summary_def st f
      using other(1) pl plh pr rl cnt by (auto split: if_splits)
  qed
qed

lemma phase1_summary_fold:
  "phase1_summary m e ls (foldl (classify_step m e src) (initial_state t0) ls)"
proof (induction ls rule: rev_induct)
  case Nil
  show ?case by (simp add: phase1_summary_initial)
next
  case (snoc l ls)
  from phase1_summary_step [OF snoc.IH, of l src] show ?case by simp
qed
lemma relation_lemma_not_empty: "is_relation_lemma m l \<Longrightarrow> lower l \<noteq> []"
proof
  assume r: "is_relation_lemma m l" and "lower l = []"
  then have "classify_lemma m l = (''unknown'', None)"
    by (simp add: classify_lemma_def strip_def vocab link_vocabulary_def)
  with r show False by (simp add: is_relation_lemma_def)
qed

lemma last_relation_lemma:
  "relation_lemmas m ls \<noteq> [] \<Longrightarrow> lower (last (relation_lemmas m ls)) \<noteq> []"
proof -
  assume "relation_lemmas m ls \<noteq> []"
  then have "last (relation_lemmas m ls) \<in> set (relation_lemmas m ls)"
    by (rule last_in_set)
  then have "is_relation_lemma m (last (relation_lemmas m ls))"
    by (simp add: relation_lemmas_def)
  then show ?thesis by (rule relation_lemma_not_empty)
qed

lemma last_problem_lemma:
  "problem_lemmas m ls \<noteq> [] \<Longrightarrow>
     problem_type m (last (problem_lemmas m ls)) = ''maladie''
     \<or> problem_type m (last (problem_lemmas m ls)) = ''ravageur''"
proof -
  assume "problem_lemmas m ls \<noteq> []"
  then have "last (problem_lemmas m ls) \<in> set (problem_lemmas m ls)"
    by (rule last_in_set)
  then have "is_problem_lemma m (last (problem_lemmas m ls))"
    by (simp add: problem_lemmas_def)
  then show ?thesis using problem_type_cases by blast
qed

lemma problem_lemmas_empty:
  "problem_lemmas m ls = [] \<longleftrightarrow> \<not> (\<exists>l\<in>set ls. is_problem_lemma m l)"
  by (auto simp add: problem_lemmas_def filter_empty_conv)

text \<open>
  Phase 2 after phase 1: no link unless both slots are filled; else the one link, from
  the hub of the plant slot to the hub of the last problem lemma.
\<close>

lemma build_links_summary:
  assumes s: "phase1_summary m e ls st"
  shows "(if (\<exists>l\<in>set ls. is_plant_lemma m l) \<and> problem_lemmas m ls \<noteq> []
          then \<exists>lk. build_links e src st = [lk]
                 \<and> relation_type lk =
                     (if relation_lemmas m ls \<noteq> [] then lower (last (relation_lemmas m ls))
                      else if problem_type m (last (problem_lemmas m ls)) = ''maladie''
                        then ''has_disease''
                      else ''has_infestation'')
                 \<and> hub_target_key lk
                     = generate_hub_key e (lower (last (problem_lemmas m ls)))
                         (problem_type m (last (problem_lemmas m ls)))
                 \<and> (\<exists>h\<in>set (hubs_list st). entity_type h = ''plante''
                        \<and> hub.hub_key h = hub_source_key lk)
                 \<and> (\<exists>h\<in>set (hubs_list st).
                        business_key h = lower (last (problem_lemmas m ls))
                        \<and> entity_type h = problem_type m (last (problem_lemmas m ls))
                        \<and> is_problem_hub h
                        \<and> hub.hub_key h = hub_target_key lk)
          else build_links e src st = [])"
proof -
  from s have
    pl: "plante_hub st \<noteq> None \<longleftrightarrow> (\<exists>l\<in>set ls. is_plant_lemma m l)" and
    plh: "\<forall>h. plante_hub st = Some h \<longrightarrow> h \<in> set (hubs_list st) \<and> entity_type h = ''plante''" and
    pr: "if problem_lemmas m ls = [] then probleme_hub st = None
         else \<exists>h. probleme_hub st = Some h \<and> h \<in> set (hubs_list st)
                \<and> business_key h = lower (last (problem_lemmas m ls))
                \<and> entity_type h = problem_type m (last (problem_lemmas m ls))
                \<and> hub.hub_key h
                    = generate_hub_key e (lower (last (problem_lemmas m ls)))
                        (problem_type m (last (problem_lemmas m ls)))" and
    rl: "relation_lemma st
         = (if relation_lemmas m ls = [] then None
            else Some (lower (last (relation_lemmas m ls))))"
    unfolding phase1_summary_def by blast+
  show ?thesis
  proof (cases "(\<exists>l\<in>set ls. is_plant_lemma m l) \<and> problem_lemmas m ls \<noteq> []")
    case False
    then have "plante_hub st = None \<or> probleme_hub st = None"
      using pl pr by (auto split: if_splits)
    then have "build_links e src st = []"
      by (auto simp add: build_links_def split: option.splits)
    then show ?thesis using False by simp
  next
    case True
    let ?p = "last (problem_lemmas m ls)"
    from True pl obtain hp where hp: "plante_hub st = Some hp" by auto
    from True pr obtain hb where hb: "probleme_hub st = Some hb" "hb \<in> set (hubs_list st)"
      "business_key hb = lower ?p" "entity_type hb = problem_type m ?p"
      "hub.hub_key hb = generate_hub_key e (lower ?p) (problem_type m ?p)"
      by auto
    from hp plh have hp': "hp \<in> set (hubs_list st)" "entity_type hp = ''plante''"
      by simp_all
    have ty: "problem_type m ?p = ''maladie'' \<or> problem_type m ?p = ''ravageur''"
      using True last_problem_lemma by blast
    then have phb: "is_problem_hub hb"
      using hb(4) by (simp add: is_problem_hub_def)
    let ?rt = "if relation_lemmas m ls \<noteq> [] then lower (last (relation_lemmas m ls))
               else if problem_type m ?p = ''maladie'' then ''has_disease''
               else ''has_infestation''"
    have rt: "(if relation_lemma st \<noteq> None \<and> relation_lemma st \<noteq> Some []
                 then the (relation_lemma st)
               else if entity_type hb = ''maladie'' then ''has_disease''
               else if entity_type hb = ''ravageur'' then ''has_infestation''
               else ''has_health_status'') = ?rt"
    proof (cases "relation_lemmas m ls = []")
      case True
      then show ?thesis using rl ty hb(4) by auto
    next
      case False
      then show ?thesis using rl last_relation_lemma [OF False] by simp
    qed
    let ?lk = "Link e (ticks st) (hub.hub_key hp) (hub.hub_key hb) ?rt src 1"
    have b: "build_links e src st = [?lk]"
      using hp hb(1) rt by (simp add: build_links_def Let_def)
    have "relation_type ?lk = ?rt" "hub_target_key ?lk = hub.hub_key hb"
      "hub_source_key ?lk = hub.hub_key hp"
      by (simp_all add: Link_def)
    then have ex: "\<exists>lk. build_links e src st = [lk]
                 \<and> relation_type lk = ?rt
                 \<and> hub_target_key lk = generate_hub_key e (lower ?p) (problem_type m ?p)
                 \<and> (\<exists>h\<in>set (hubs_list st). entity_type h = ''plante''
                        \<and> hub.hub_key h = hub_source_key lk)
                 \<and> (\<exists>h\<in>set (hubs_list st).
                        business_key h = lower ?p
                        \<and> entity_type h = problem_type m ?p
                        \<and> is_problem_hub h
                        \<and> hub.hub_key h = hub_target_key lk)"
      using b hb hp' phb by (intro exI [of _ ?lk]) auto
    show ?thesis unfolding if_P [OF True] by (rule ex)
  qed
qed

lemma classify_lemmas_parts:
  "fst (classify_lemmas m e t0 ls src)
     = hubs_list (foldl (classify_step m e src) (initial_state t0) ls)
   \<and> fst (snd (classify_lemmas m e t0 ls src))
     = build_links e src (foldl (classify_step m e src) (initial_state t0) ls)"
  by (simp add: classify_lemmas_def Let_def)
text \<open>The five lemmas of the example, whatever the matcher is.\<close>

lemma classify_lemma_example:
  "classify_lemma m ''corn'' = (''hub'', Some ''plante'')"
  "classify_lemma m ''has_disease'' = (''link'', Some ''relation'')"
  "classify_lemma m ''helminthosporiose'' = (''hub'', Some ''maladie'')"
  "classify_lemma m ''necrose'' = (''satellite'', Some ''symptome'')"
  "classify_lemma m ''vert_fonce'' = (''satellite'', Some ''couleur'')"
  by (simp_all add: classify_lemma_def str_eval vocab link_vocabulary_def)

lemma lower_example:
  "lower ''corn'' = ''corn''"
  "lower ''has_disease'' = ''has_disease''"
  "lower ''helminthosporiose'' = ''helminthosporiose''"
  "lower ''necrose'' = ''necrose''"
  "lower ''vert_fonce'' = ''vert_fonce''"
  by (simp_all add: str_eval)

text \<open>
  C2: classifying the list \<open>corn\<close>, \<open>has_disease\<close>, \<open>helminthosporiose\<close>, \<open>necrose\<close>,
  \<open>vert_fonce\<close> yields exactly two hubs (corn, the plant, and helminthosporiose, the
  disease), exactly one link, of relation type \<open>has_disease\<close>, from the key of the hub
  of corn to the key of the hub of the disease, and exactly two satellites: \<open>necrose\<close>,
  a symptom, on the hub of the disease, and \<open>vert_fonce\<close>, a colour, on the hub of the
  plant. This holds for every matcher, environment, clock and image.
\<close>

theorem classify_lemmas_example:
  "\<exists>plant disease lk s1 s2.
     classify_lemmas m e t0
       [''corn'', ''has_disease'', ''helminthosporiose'', ''necrose'', ''vert_fonce''] src
       = ([plant, disease], [lk], [s1, s2])
     \<and> business_key plant = ''corn'' \<and> entity_type plant = ''plante''
     \<and> business_key disease = ''helminthosporiose'' \<and> entity_type disease = ''maladie''
     \<and> relation_type lk = ''has_disease''
     \<and> hub_source_key lk = hub.hub_key plant \<and> hub_target_key lk = hub.hub_key disease
     \<and> attribute_value s1 = ''necrose'' \<and> attribute_name s1 = ''symptome''
     \<and> satellite.hub_key s1 = hub.hub_key disease
     \<and> attribute_value s2 = ''vert_fonce'' \<and> attribute_name s2 = ''couleur''
     \<and> satellite.hub_key s2 = hub.hub_key plant"
proof -
  let ?plant = "Hub e t0 ''corn'' ''plante'' src (ontology_prefix @ ''corn'') 1"
  let ?disease = "Hub e (Suc t0) ''helminthosporiose'' ''maladie'' src
                    (ontology_prefix @ ''helminthosporiose'') 1"
  let ?lk = "Link e (Suc (Suc t0)) (hub.hub_key ?plant) (hub.hub_key ?disease) ''has_disease''
               src 1"
  let ?s1 = "Satellite e (Suc (Suc (Suc t0))) (hub.hub_key ?disease) ''symptome'' ''necrose''
               src (95 / 100)"
  let ?s2 = "Satellite e (Suc (Suc (Suc (Suc t0)))) (hub.hub_key ?plant) ''couleur''
               ''vert_fonce'' src (95 / 100)"
  let ?st = "\<lparr>hubs_list = [?plant, ?disease],
              satellites_list = [(''necrose'', ''symptome''), (''vert_fonce'', ''couleur'')],
              plante_hub = Some ?plant, probleme_hub = Some ?disease,
              relation_lemma = Some ''has_disease'', ticks = Suc (Suc t0)\<rparr>"
  have p1: "foldl (classify_step m e src) (initial_state t0)
              [''corn'', ''has_disease'', ''helminthosporiose'', ''necrose'', ''vert_fonce'']
            = ?st"
    by (simp add: classify_step_def initial_state_def classify_lemma_example lower_example Let_def)
  have p2: "build_links e src ?st = [?lk]"
    by (simp add: build_links_def Let_def)
  have p3: "build_satellites e src ?st (Suc (Suc (Suc t0)))
              [(''necrose'', ''symptome''), (''vert_fonce'', ''couleur'')] = [?s1, ?s2]"
    by (simp add: parent_hub_def DISEASE_SAT_TYPES_def lower_example)
  have r: "classify_lemmas m e t0
       [''corn'', ''has_disease'', ''helminthosporiose'', ''necrose'', ''vert_fonce''] src
       = ([?plant, ?disease], [?lk], [?s1, ?s2])"
    unfolding classify_lemmas_def Let_def p1 using p2 p3 by simp
  have f: "business_key ?plant = ''corn''" "entity_type ?plant = ''plante''"
    "business_key ?disease = ''helminthosporiose''" "entity_type ?disease = ''maladie''"
    "relation_type ?lk = ''has_disease''"
    "hub_source_key ?lk = hub.hub_key ?plant" "hub_target_key ?lk = hub.hub_key ?disease"
    "attribute_value ?s1 = ''necrose''" "attribute_name ?s1 = ''symptome''"
    "satellite.hub_key ?s1 = hub.hub_key ?disease"
    "attribute_value ?s2 = ''vert_fonce''" "attribute_name ?s2 = ''couleur''"
    "satellite.hub_key ?s2 = hub.hub_key ?plant"
    by (simp_all add: Hub_def Link_def Satellite_def)
  show ?thesis
    using r f by blast
qed

theorem classify_lemmas_example_witness:
  "\<exists>plant disease lk s1 s2.
     classify_lemmas offline_matcher env0 0
       [''corn'', ''has_disease'', ''helminthosporiose'', ''necrose'', ''vert_fonce'']
       ''img1.jpg''
       = ([plant, disease], [lk], [s1, s2])
     \<and> business_key plant = ''corn'' \<and> entity_type plant = ''plante''
     \<and> business_key disease = ''helminthosporiose'' \<and> entity_type disease = ''maladie''
     \<and> relation_type lk = ''has_disease''
     \<and> hub_source_key lk = hub.hub_key plant \<and> hub_target_key lk = hub.hub_key disease
     \<and> attribute_value s1 = ''necrose'' \<and> attribute_name s1 = ''symptome''
     \<and> satellite.hub_key s1 = hub.hub_key disease
     \<and> attribute_value s2 = ''vert_fonce'' \<and> attribute_name s2 = ''couleur''
     \<and> satellite.hub_key s2 = hub.hub_key plant"
  by (rule classify_lemmas_example)
text \<open>
  What the code does about the link, in terms of the lemmas of the input: the slots are
  filled by the direct lookup only, so a link is created exactly when a lemma is a plant
  for that lookup and a lemma is a problem for it; there is at most one link; its
  relation type is the last relation lemma in lower case, else it follows the type of the
  last problem lemma; and its target is the key of the hub of the last problem lemma.
\<close>

lemma link_iff_direct_lookup:
  "(fst (snd (classify_lemmas m e t0 lems src)) \<noteq> []
      \<longleftrightarrow> (\<exists>l\<in>set lems. is_plant_lemma m l) \<and> (\<exists>l\<in>set lems. is_problem_lemma m l))
   \<and> length (fst (snd (classify_lemmas m e t0 lems src))) \<le> 1
   \<and> (fst (snd (classify_lemmas m e t0 lems src)) \<noteq> []
        \<longrightarrow> (\<exists>h\<in>set (fst (classify_lemmas m e t0 lems src)). entity_type h = ''plante'')
          \<and> (\<exists>h\<in>set (fst (classify_lemmas m e t0 lems src)). is_problem_hub h))
   \<and> (\<forall>lk\<in>set (fst (snd (classify_lemmas m e t0 lems src))).
         relation_type lk =
           (if relation_lemmas m lems \<noteq> [] then lower (last (relation_lemmas m lems))
            else if problem_type m (last (problem_lemmas m lems)) = ''maladie''
              then ''has_disease''
            else ''has_infestation''))"
proof -
  let ?st = "foldl (classify_step m e src) (initial_state t0) lems"
  have h: "fst (classify_lemmas m e t0 lems src) = hubs_list ?st"
    and l: "fst (snd (classify_lemmas m e t0 lems src)) = build_links e src ?st"
    using classify_lemmas_parts [of m e t0 lems src] by simp_all
  note b = build_links_summary [OF phase1_summary_fold [of m e lems src t0], of src]
  show ?thesis
  proof (cases "(\<exists>l\<in>set lems. is_plant_lemma m l) \<and> problem_lemmas m lems \<noteq> []")
    case True
    from b [unfolded if_P [OF True]] obtain lk where lk: "build_links e src ?st = [lk]"
      "relation_type lk =
         (if relation_lemmas m lems \<noteq> [] then lower (last (relation_lemmas m lems))
          else if problem_type m (last (problem_lemmas m lems)) = ''maladie''
            then ''has_disease''
          else ''has_infestation'')"
      "\<exists>h\<in>set (hubs_list ?st). entity_type h = ''plante'' \<and> hub.hub_key h = hub_source_key lk"
      "\<exists>h\<in>set (hubs_list ?st).
          business_key h = lower (last (problem_lemmas m lems))
          \<and> entity_type h = problem_type m (last (problem_lemmas m lems))
          \<and> is_problem_hub h \<and> hub.hub_key h = hub_target_key lk"
      by blast
    from True have "(\<exists>l\<in>set lems. is_plant_lemma m l) \<and> (\<exists>l\<in>set lems. is_problem_lemma m l)"
      by (simp add: problem_lemmas_empty)
    then show ?thesis
      unfolding h l lk(1) using lk(2,3,4) by auto
  next
    case False
    from b [unfolded if_not_P [OF False]] have e: "build_links e src ?st = []" .
    from False have "\<not> ((\<exists>l\<in>set lems. is_plant_lemma m l) \<and> (\<exists>l\<in>set lems. is_problem_lemma m l))"
      by (simp add: problem_lemmas_empty)
    then show ?thesis
      unfolding h l e by simp
  qed
qed

lemma link_targets_last_problem:
  "(\<forall>lk\<in>set (fst (snd (classify_lemmas m e t0 lems src))).
      hub_target_key lk
        = generate_hub_key e (lower (last (problem_lemmas m lems)))
            (problem_type m (last (problem_lemmas m lems)))
      \<and> (\<exists>h\<in>set (fst (classify_lemmas m e t0 lems src)).
            business_key h = lower (last (problem_lemmas m lems))
            \<and> entity_type h = problem_type m (last (problem_lemmas m lems))
            \<and> hub.hub_key h = hub_target_key lk))
   \<and> ((\<exists>l\<in>set lems. is_plant_lemma m l) \<and> problem_lemmas m lems \<noteq> []
        \<longrightarrow> fst (snd (classify_lemmas m e t0 lems src)) \<noteq> [])"
proof -
  let ?st = "foldl (classify_step m e src) (initial_state t0) lems"
  have h: "fst (classify_lemmas m e t0 lems src) = hubs_list ?st"
    and l: "fst (snd (classify_lemmas m e t0 lems src)) = build_links e src ?st"
    using classify_lemmas_parts [of m e t0 lems src] by simp_all
  note s = phase1_summary_fold [of m e lems src t0]
  note b = build_links_summary [OF s, of src]
  show ?thesis
  proof (cases "(\<exists>l\<in>set lems. is_plant_lemma m l) \<and> problem_lemmas m lems \<noteq> []")
    case True
    from b [unfolded if_P [OF True]] obtain lk where lk: "build_links e src ?st = [lk]"
      "hub_target_key lk
         = generate_hub_key e (lower (last (problem_lemmas m lems)))
             (problem_type m (last (problem_lemmas m lems)))"
      "\<exists>h\<in>set (hubs_list ?st).
          business_key h = lower (last (problem_lemmas m lems))
          \<and> entity_type h = problem_type m (last (problem_lemmas m lems))
          \<and> is_problem_hub h \<and> hub.hub_key h = hub_target_key lk"
      by blast
    show ?thesis
      unfolding h l lk(1) using lk(2,3) by auto
  next
    case False
    from b [unfolded if_not_P [OF False]] have e: "build_links e src ?st = []" .
    show ?thesis
      unfolding h l e using False by simp
  qed
qed

text \<open>
  C1: the claim asks for a link whenever the pass has the hub of a plant and the hub of
  a problem. The code breaks it when a hub comes from the similarity rescue, which
  appends a hub with its entity type and leaves the slots alone, where the direct lookup
  fills them. Here \<open>corn\<close> is a plant and \<open>foreur-tige\<close>, which no vocabulary lists, is
  rescued as a pest (its normal form is the one of \<open>foreur_tige\<close>, so its score is 1):
  the pass returns the hub of a plant and the hub of a pest, and no link.
\<close>

theorem classify_lemmas_rescued_hub_no_link:
  "map business_key
     (fst (classify_lemmas offline_matcher env0 0 [''corn'', ''foreur-tige''] ''img1.jpg''))
     = [''corn'', ''foreur-tige'']
   \<and> map entity_type
       (fst (classify_lemmas offline_matcher env0 0 [''corn'', ''foreur-tige''] ''img1.jpg''))
       = [''plante'', ''ravageur'']
   \<and> fst (snd (classify_lemmas offline_matcher env0 0 [''corn'', ''foreur-tige''] ''img1.jpg''))
       = []"
  by code_simp

text \<open>
  C3: the claim asks that at most one problem hub results from a pass. The code breaks
  it: every problem lemma appends its hub to the list of hubs, and only the slot is
  overwritten. Here two diseases follow the plant: the pass returns three hubs, two of
  them of a disease, and one link, whose target is the hub of the last disease.
\<close>

theorem classify_lemmas_two_problem_hubs:
  "map business_key
     (fst (classify_lemmas offline_matcher env0 0 [''corn'', ''rouille'', ''mildiou'']
        ''img1.jpg''))
     = [''corn'', ''rouille'', ''mildiou'']
   \<and> map entity_type
       (fst (classify_lemmas offline_matcher env0 0 [''corn'', ''rouille'', ''mildiou'']
          ''img1.jpg''))
       = [''plante'', ''maladie'', ''maladie'']
   \<and> map hub_target_key
       (fst (snd (classify_lemmas offline_matcher env0 0 [''corn'', ''rouille'', ''mildiou'']
          ''img1.jpg'')))
       = [generate_hub_key env0 ''mildiou'' ''maladie'']"
  by code_simp

end
